theory Spec2Isabelle
  imports Complex_Main "HOL-Library.Sublist"
begin

section \<open>JavaScript values\<close>

text \<open>
  The program is TypeScript/JavaScript working on JSON received from an upstream
  service. Numbers are IEEE doubles; the program only compares them, takes minima and
  passes them through, so a finite number is modelled by its exact rational value, next
  to the three special values. Negative zero is identified with zero (the program never
  distinguishes them).
\<close>

datatype jsnum = Num rat | NaN | PosInf | NegInf

text \<open>
  A JavaScript value as it comes out of \<^verbatim>\<open>JSON.parse\<close> or a property read:
  \<open>JUndefined\<close> is the result of reading a property that is not there.
  An object is the list of its own properties; a string is the list of its code units.
\<close>

datatype json =
    JUndefined
  | JNull
  | JBool bool
  | JNum jsnum
  | JStr string
  | JArr "json list"
  | JObj "(string \<times> json) list"

text \<open>The errors the program can raise: \<^verbatim>\<open>new Error(msg)\<close> thrown by the program
  itself, and the runtime's \<^verbatim>\<open>SyntaxError\<close> and \<^verbatim>\<open>TypeError\<close> (their messages are
  chosen by the engine and are not modelled).\<close>

datatype js_error = Error string | SyntaxError | TypeError

text \<open>The \<^verbatim>\<open>name\<close> property of an error object: its kind.\<close>

fun error_name :: "js_error \<Rightarrow> string" where
  "error_name (Error m) = ''Error''"
| "error_name SyntaxError = ''SyntaxError''"
| "error_name TypeError = ''TypeError''"

text \<open>ToBoolean: the falsy values are \<^verbatim>\<open>undefined\<close>, \<^verbatim>\<open>null\<close>, \<^verbatim>\<open>false\<close>,
  \<^verbatim>\<open>0\<close>, \<^verbatim>\<open>NaN\<close> and the empty string.\<close>

fun truthy :: "json \<Rightarrow> bool" where
  "truthy JUndefined = False"
| "truthy JNull = False"
| "truthy (JBool b) = b"
| "truthy (JNum n) = (n \<noteq> Num 0 \<and> n \<noteq> NaN)"
| "truthy (JStr s) = (s \<noteq> [])"
| "truthy (JArr xs) = True"
| "truthy (JObj kvs) = True"

text \<open>\<^verbatim>\<open>v == null\<close>: true of \<^verbatim>\<open>null\<close> and \<^verbatim>\<open>undefined\<close> only.\<close>

fun nullish :: "json \<Rightarrow> bool" where
  "nullish JUndefined = True"
| "nullish JNull = True"
| "nullish v = False"

text \<open>\<^verbatim>\<open>a || b\<close> and \<^verbatim>\<open>a ?? b\<close> on values.\<close>

definition js_or :: "json \<Rightarrow> json \<Rightarrow> json" where
  "js_or a b = (if truthy a then a else b)"

definition js_coalesce :: "json \<Rightarrow> json \<Rightarrow> json" where
  "js_coalesce a b = (if nullish a then b else a)"

text \<open>\<^verbatim>\<open>typeof v === 'object'\<close>: objects, arrays and, as JavaScript has it, \<^verbatim>\<open>null\<close>.\<close>

fun typeof_object :: "json \<Rightarrow> bool" where
  "typeof_object JNull = True"
| "typeof_object (JArr xs) = True"
| "typeof_object (JObj kvs) = True"
| "typeof_object v = False"

text \<open>
  Property read \<^verbatim>\<open>v.k\<close>. Reading from \<^verbatim>\<open>null\<close> or \<^verbatim>\<open>undefined\<close> raises a TypeError;
  an object yields its own property or \<^verbatim>\<open>undefined\<close>; arrays and strings have
  \<^verbatim>\<open>length\<close>; numbers and booleans have none of the properties read here.
  The function is applied only to the property names that occur in the program
  (\<^verbatim>\<open>id\<close>, \<^verbatim>\<open>title\<close>, \<^verbatim>\<open>price\<close>, \<^verbatim>\<open>length\<close>, ...), none of which is inherited
  from a built-in prototype except \<^verbatim>\<open>length\<close>.
\<close>

fun get_prop :: "json \<Rightarrow> string \<Rightarrow> js_error + json" where
  "get_prop JUndefined k = Inl TypeError"
| "get_prop JNull k = Inl TypeError"
| "get_prop (JObj kvs) k = Inr (case map_of kvs k of None \<Rightarrow> JUndefined | Some v \<Rightarrow> v)"
| "get_prop (JArr xs) k =
     Inr (if k = ''length'' then JNum (Num (of_nat (length xs))) else JUndefined)"
| "get_prop (JStr s) k =
     Inr (if k = ''length'' then JNum (Num (of_nat (length s))) else JUndefined)"
| "get_prop (JBool b) k = Inr JUndefined"
| "get_prop (JNum n) k = Inr JUndefined"

text \<open>Optional chaining \<^verbatim>\<open>v?.k\<close>: \<^verbatim>\<open>undefined\<close> when \<open>v\<close> is nullish, and never
  an error.\<close>

definition opt_prop :: "json \<Rightarrow> string \<Rightarrow> json" where
  "opt_prop v k = (case get_prop v k of Inl e \<Rightarrow> JUndefined | Inr w \<Rightarrow> w)"

text \<open>Optional element read \<^verbatim>\<open>v?.[0]\<close>.\<close>

fun opt_first :: "json \<Rightarrow> json" where
  "opt_first (JArr xs) = (case xs of [] \<Rightarrow> JUndefined | x # _ \<Rightarrow> x)"
| "opt_first (JStr s) = (case s of [] \<Rightarrow> JUndefined | c # _ \<Rightarrow> JStr [c])"
| "opt_first (JObj kvs) = (case map_of kvs ''0'' of None \<Rightarrow> JUndefined | Some v \<Rightarrow> v)"
| "opt_first v = JUndefined"

text \<open>Sequencing of computations that may throw.\<close>

definition ebind :: "js_error + 'a \<Rightarrow> ('a \<Rightarrow> js_error + 'b) \<Rightarrow> js_error + 'b" where
  "ebind m f = (case m of Inl e \<Rightarrow> Inl e | Inr v \<Rightarrow> f v)"

text \<open>
  ToString, as a template literal \<^verbatim>\<open>`${v}`\<close> applies it. The rendering of a number
  (\<^verbatim>\<open>Number.prototype.toString\<close>) belongs to the runtime and is the parameter \<open>numstr\<close>.
  An array is the comma-separated rendering of its elements, with \<^verbatim>\<open>null\<close> and
  \<^verbatim>\<open>undefined\<close> elements rendered empty. A plain object renders as
  \<^verbatim>\<open>[object Object]\<close>, unless it has an own property \<^verbatim>\<open>toString\<close>: coming from JSON
  that property is not callable, the inherited \<^verbatim>\<open>valueOf\<close> returns the object itself,
  and the conversion raises a TypeError.
\<close>

fun ToString :: "(jsnum \<Rightarrow> string) \<Rightarrow> json \<Rightarrow> js_error + string"
  and join_elems :: "(jsnum \<Rightarrow> string) \<Rightarrow> json list \<Rightarrow> js_error + string" where
  "ToString numstr JUndefined = Inr ''undefined''"
| "ToString numstr JNull = Inr ''null''"
| "ToString numstr (JBool b) = Inr (if b then ''true'' else ''false'')"
| "ToString numstr (JNum n) = Inr (numstr n)"
| "ToString numstr (JStr s) = Inr s"
| "ToString numstr (JArr xs) = join_elems numstr xs"
| "ToString numstr (JObj kvs) =
     (case map_of kvs ''toString'' of
        None \<Rightarrow> Inr ''[object Object]''
      | Some f \<Rightarrow> Inl TypeError)"
| "join_elems numstr [] = Inr []"
| "join_elems numstr (x # xs) =
     ebind (if nullish x then Inr [] else ToString numstr x) (\<lambda>s.
       if xs = [] then Inr s
       else ebind (join_elems numstr xs) (\<lambda>r. Inr (s @ '','' @ r)))"

text \<open>\<^verbatim>\<open>Math.min\<close> of two numbers: \<^verbatim>\<open>NaN\<close> if either is, otherwise the smaller.\<close>

fun Math_min :: "jsnum \<Rightarrow> jsnum \<Rightarrow> jsnum" where
  "Math_min NaN b = NaN"
| "Math_min a NaN = NaN"
| "Math_min NegInf b = NegInf"
| "Math_min a NegInf = NegInf"
| "Math_min PosInf b = b"
| "Math_min a PosInf = a"
| "Math_min (Num x) (Num y) = Num (min x y)"


section \<open>Normalization layer (client.ts, client.js)\<close>

text \<open>
  The simplified records hold whatever value the upstream JSON carried: the TypeScript
  field types are not checked at run time, so the fields are JavaScript values.
\<close>

record SearchItem =
  id_i :: json
  title :: json
  price :: json
  currency :: json
  city :: json
  distance :: json
  slug :: json
  url :: string
  image_i :: json
  sellerId :: json
  reserved :: json
  shippable :: json
  createdAt :: json

record Seller =
  id_seller :: json
  name_seller :: json

record ItemDetails =
  id_d :: json
  title_d :: json
  description :: json
  price_d :: json
  currency_d :: json
  city_d :: json
  seller :: Seller
  slug_d :: json
  url_d :: string
  images :: json
  reserved_d :: json
  sold :: json
  counters :: json
  createdAt_d :: json

definition ITEM_BASE :: string where
  "ITEM_BASE = ''https://es.wallapop.com/item/''"

text \<open>\<open>simplifySearchItem\<close>: the same text in client.ts and client.js.\<close>

definition simplifySearchItem :: "(jsnum \<Rightarrow> string) \<Rightarrow> json \<Rightarrow> js_error + SearchItem" where
  "simplifySearchItem numstr item =
     ebind (get_prop item ''id'') (\<lambda>v_id.
     ebind (get_prop item ''title'') (\<lambda>v_title.
     ebind (get_prop item ''price'') (\<lambda>v_price.
     ebind (get_prop item ''location'') (\<lambda>v_location.
     ebind (get_prop item ''distance'') (\<lambda>v_distance.
     ebind (get_prop item ''web_slug'') (\<lambda>v_slug.
     ebind (ToString numstr v_slug) (\<lambda>slug_text.
     ebind (get_prop item ''images'') (\<lambda>v_images.
     ebind (get_prop item ''user_id'') (\<lambda>v_user.
     ebind (get_prop item ''reserved'') (\<lambda>v_reserved.
     ebind (get_prop item ''shipping'') (\<lambda>v_shipping.
     ebind (get_prop item ''created_at'') (\<lambda>v_created.
       Inr \<lparr> id_i = v_id,
             title = v_title,
             price = opt_prop v_price ''amount'',
             currency = js_or (opt_prop v_price ''currency'') (JStr ''EUR''),
             city = opt_prop v_location ''city'',
             distance = v_distance,
             slug = v_slug,
             url = ITEM_BASE @ slug_text,
             image_i = opt_prop (opt_prop (opt_first v_images) ''urls'') ''medium'',
             sellerId = v_user,
             reserved = js_or (opt_prop v_reserved ''flag'') (JBool False),
             shippable = js_or (opt_prop v_shipping ''user_allows_shipping'') (JBool False),
             createdAt = v_created \<rparr>))))))))))))"

text \<open>The first three statements of \<open>simplifyItemDetails\<close>. The title and the description
  are read through \<^verbatim>\<open>.original\<close> when \<^verbatim>\<open>typeof\<close> says object.\<close>

definition unwrap_original :: "json \<Rightarrow> js_error + json" where
  "unwrap_original v = (if typeof_object v then get_prop v ''original'' else Inr v)"

text \<open>\<^verbatim>\<open>raw.price?.cash?.amount ?? raw.price?.amount\<close>, on the value of \<^verbatim>\<open>raw.price\<close>.\<close>

definition cash_or_flat_amount :: "json \<Rightarrow> json" where
  "cash_or_flat_amount v_price =
     js_coalesce (opt_prop (opt_prop v_price ''cash'') ''amount'') (opt_prop v_price ''amount'')"

text \<open>The object literal that \<open>simplifyItemDetails\<close> returns, the same in both
  implementations, given the title, description and price computed before it.\<close>

definition details_literal ::
  "(jsnum \<Rightarrow> string) \<Rightarrow> json \<Rightarrow> json \<Rightarrow> json \<Rightarrow> json \<Rightarrow> js_error + ItemDetails" where
  "details_literal numstr raw v_title v_desc v_amount =
     ebind (get_prop raw ''id'') (\<lambda>v_id.
     ebind (get_prop raw ''price'') (\<lambda>v_price.
     ebind (get_prop raw ''location'') (\<lambda>v_location.
     ebind (get_prop raw ''user'') (\<lambda>v_user.
     ebind (get_prop raw ''web_slug'') (\<lambda>v_slug.
     ebind (ToString numstr v_slug) (\<lambda>slug_text.
     ebind (get_prop raw ''images'') (\<lambda>v_images.
     ebind (get_prop (js_or v_images (JArr [])) ''length'') (\<lambda>v_count.
     ebind (get_prop raw ''reserved'') (\<lambda>v_reserved.
     ebind (get_prop raw ''sold'') (\<lambda>v_sold.
     ebind (get_prop raw ''counters'') (\<lambda>v_counters.
     ebind (get_prop raw ''creation_date'') (\<lambda>v_created.
       Inr \<lparr> id_d = v_id,
             title_d = v_title,
             description = v_desc,
             price_d = v_amount,
             currency_d = js_or (opt_prop (opt_prop v_price ''cash'') ''currency'')
                            (js_or (opt_prop v_price ''currency'') (JStr ''EUR'')),
             city_d = opt_prop v_location ''city'',
             seller = \<lparr> id_seller = opt_prop v_user ''id'',
                        name_seller = opt_prop v_user ''micro_name'' \<rparr>,
             slug_d = v_slug,
             url_d = ITEM_BASE @ slug_text,
             images = v_count,
             reserved_d = js_or (opt_prop v_reserved ''flag'') (JBool False),
             sold = js_or (opt_prop v_sold ''flag'') (JBool False),
             counters = js_or v_counters JNull,
             createdAt_d = v_created \<rparr>))))))))))))"

text \<open>\<open>simplifyItemDetails\<close> of client.ts: the price defaults to 0.\<close>

definition simplifyItemDetails :: "(jsnum \<Rightarrow> string) \<Rightarrow> json \<Rightarrow> js_error + ItemDetails" where
  "simplifyItemDetails numstr raw =
     ebind (get_prop raw ''title'') (\<lambda>t.
     ebind (unwrap_original t) (\<lambda>v_title.
     ebind (get_prop raw ''description'') (\<lambda>d.
     ebind (unwrap_original d) (\<lambda>v_desc.
     ebind (get_prop raw ''price'') (\<lambda>v_price.
       details_literal numstr raw v_title v_desc
         (js_coalesce (cash_or_flat_amount v_price) (JNum (Num 0))))))))"

text \<open>\<open>simplifyItemDetails\<close> of client.js: no default for the price.\<close>

definition simplifyItemDetails_js :: "(jsnum \<Rightarrow> string) \<Rightarrow> json \<Rightarrow> js_error + ItemDetails" where
  "simplifyItemDetails_js numstr raw =
     ebind (get_prop raw ''title'') (\<lambda>t.
     ebind (unwrap_original t) (\<lambda>v_title.
     ebind (get_prop raw ''description'') (\<lambda>d.
     ebind (unwrap_original d) (\<lambda>v_desc.
     ebind (get_prop raw ''price'') (\<lambda>v_price.
       details_literal numstr raw v_title v_desc (cash_or_flat_amount v_price))))))"

section \<open>Search (client.ts, client.js)\<close>

text \<open>\<open>SearchParams\<close> of types.ts: every field is optional.\<close>

record SearchParams =
  keywords_p :: "string option"
  minPrice :: "jsnum option"
  maxPrice :: "jsnum option"
  distance_p :: "jsnum option"
  latitude :: "jsnum option"
  longitude :: "jsnum option"
  categoryId :: "jsnum option"
  orderBy :: "string option"
  limit :: "jsnum option"
  nextPage_p :: "string option"

record SearchResult =
  items :: "SearchItem list"
  nextPage :: json
  total :: nat

text \<open>Barcelona defaults: the doubles that the numerals \<^verbatim>\<open>41.3891\<close> and \<^verbatim>\<open>2.1606\<close>
  denote, as exact fractions (the denominators are \<open>2 ^ 46\<close> and \<open>2 ^ 51\<close>).\<close>

definition DEFAULT_LAT :: jsnum where
  "DEFAULT_LAT = Num (2912498989643753 / 70368744177664)"

definition DEFAULT_LNG :: jsnum where
  "DEFAULT_LNG = Num (4865238677448347 / 2251799813685248)"

text \<open>Truthiness of an optional string: absent and empty are falsy.\<close>

fun present_str :: "string option \<Rightarrow> bool" where
  "present_str None = False"
| "present_str (Some s) = (s \<noteq> [])"

text \<open>An entry \<^verbatim>\<open>if (v != null) query.k = v\<close> or \<^verbatim>\<open>if (v) query.k = v\<close>.\<close>

fun num_entry :: "string \<Rightarrow> jsnum option \<Rightarrow> (string \<times> json) list" where
  "num_entry k None = []"
| "num_entry k (Some n) = [(k, JNum n)]"

definition str_entry :: "string \<Rightarrow> string option \<Rightarrow> (string \<times> json) list" where
  "str_entry k v = (if present_str v then [(k, JStr (the v))] else [])"

fun num_or :: "jsnum option \<Rightarrow> jsnum \<Rightarrow> jsnum" where
  "num_or None d = d"
| "num_or (Some n) d = n"

text \<open>
  The query object that \<open>search\<close> of client.ts hands to \<open>get\<close>: the properties in the
  order of their assignment.
\<close>

definition search_query :: "SearchParams \<Rightarrow> (string \<times> json) list" where
  "search_query params =
     [(''step'', JNum (Num 1)), (''source'', JStr ''keywords''),
      (''limit'', JNum (num_or (limit params) (Num 20)))]
     @ (if present_str (nextPage_p params)
        then [(''next_page'', JStr (the (nextPage_p params)))]
        else str_entry ''keywords'' (keywords_p params)
           @ num_entry ''min_sale_price'' (minPrice params)
           @ num_entry ''max_sale_price'' (maxPrice params)
           @ num_entry ''distance'' (distance_p params)
           @ [(''latitude'', JNum (num_or (latitude params) DEFAULT_LAT))]
           @ [(''longitude'', JNum (num_or (longitude params) DEFAULT_LNG))]
           @ num_entry ''category_id'' (categoryId params)
           @ str_entry ''order_by'' (orderBy params))"

text \<open>
  The same in client.js, where the defaults are those of the destructured parameters
  (\<^verbatim>\<open>latitude = DEFAULT_LAT\<close>, \<^verbatim>\<open>longitude = DEFAULT_LNG\<close>, \<^verbatim>\<open>limit = 20\<close>) and the
  coordinates are entered under \<^verbatim>\<open>!= null\<close>, which a number always passes.
\<close>

definition search_query_js :: "SearchParams \<Rightarrow> (string \<times> json) list" where
  "search_query_js params =
     (let lat = num_or (latitude params) DEFAULT_LAT;
          lng = num_or (longitude params) DEFAULT_LNG;
          lim = num_or (limit params) (Num 20)
      in [(''step'', JNum (Num 1)), (''source'', JStr ''keywords''), (''limit'', JNum lim)]
         @ (if present_str (nextPage_p params)
            then [(''next_page'', JStr (the (nextPage_p params)))]
            else str_entry ''keywords'' (keywords_p params)
               @ num_entry ''min_sale_price'' (minPrice params)
               @ num_entry ''max_sale_price'' (maxPrice params)
               @ num_entry ''distance'' (distance_p params)
               @ num_entry ''latitude'' (Some lat)
               @ num_entry ''longitude'' (Some lng)
               @ num_entry ''category_id'' (categoryId params)
               @ str_entry ''order_by'' (orderBy params)))"

text \<open>\<^verbatim>\<open>xs.map(f)\<close> for an \<open>f\<close> that may throw: the first element that throws ends
  the map.\<close>

fun map_throw :: "('a \<Rightarrow> js_error + 'b) \<Rightarrow> 'a list \<Rightarrow> js_error + 'b list" where
  "map_throw f [] = Inr []"
| "map_throw f (x # xs) =
     ebind (f x) (\<lambda>y.
     ebind (map_throw f xs) (\<lambda>ys. Inr (y # ys)))"

text \<open>\<^verbatim>\<open>data?.data?.section?.payload?.items || []\<close>\<close>

definition payload_items :: "json \<Rightarrow> json" where
  "payload_items data =
     js_or (opt_prop (opt_prop (opt_prop (opt_prop data ''data'') ''section'') ''payload'')
              ''items'')
           (JArr [])"

text \<open>
  \<open>search\<close>. The HTTP request \<^verbatim>\<open>this.get(path, query)\<close> is the parameter \<open>api_get\<close>: it
  yields the parsed response body or the error it throws. Calling \<^verbatim>\<open>.map\<close> on a
  value that is not an array raises a TypeError.
\<close>

definition search ::
  "(string \<Rightarrow> (string \<times> json) list \<Rightarrow> js_error + json) \<Rightarrow> (jsnum \<Rightarrow> string)
     \<Rightarrow> SearchParams \<Rightarrow> js_error + SearchResult" where
  "search api_get numstr params =
     ebind (api_get ''/search'' (search_query params)) (\<lambda>data.
       case payload_items data of
         JArr raw_items \<Rightarrow>
           ebind (map_throw (simplifySearchItem numstr) raw_items) (\<lambda>its.
             Inr \<lparr> items = its,
                   nextPage = js_or (opt_prop (opt_prop data ''meta'') ''next_page'') JNull,
                   total = length raw_items \<rparr>)
       | _ \<Rightarrow> Inl TypeError)"


section \<open>Hash resolution (client.ts, client.js)\<close>

text \<open>
  The pattern
  \<^verbatim>\<open>/<script\s+id="__NEXT_DATA__"\s+type="application\/json">([^<]+)<\/script>/\<close>.
  A character is one code unit below 256; of the white space that \<^verbatim>\<open>\s\<close> accepts
  these are TAB, LF, VT, FF, CR, SPACE and NBSP.
\<close>

definition is_space :: "char \<Rightarrow> bool" where
  "is_space c = (c \<in> set [CHR 0x09, CHR 0x0A, CHR 0x0B, CHR 0x0C, CHR 0x0D, CHR 0x20, CHR 0xA0])"

text \<open>Removal of a literal prefix.\<close>

fun strip_prefix :: "string \<Rightarrow> string \<Rightarrow> string option" where
  "strip_prefix [] s = Some s"
| "strip_prefix (p # ps) [] = None"
| "strip_prefix (p # ps) (c # cs) = (if p = c then strip_prefix ps cs else None)"

text \<open>\<^verbatim>\<open>\s+\<close> followed by a literal that does not begin with white space: all the white
  space, at least one character of it.\<close>

definition skip_spaces :: "string \<Rightarrow> string option" where
  "skip_spaces s = (if takeWhile is_space s = [] then None else Some (dropWhile is_space s))"

text \<open>
  A match that begins at the first character of \<open>s\<close>, yielding the captured group. The
  group \<^verbatim>\<open>([^<]+)\<close> is followed by \<^verbatim>\<open><\<close> in the pattern, so it is the longest run of
  characters other than \<^verbatim>\<open><\<close>, and not empty.
\<close>

definition match_here :: "string \<Rightarrow> string option" where
  \<open>match_here s =
     (case strip_prefix ''<script'' s of None \<Rightarrow> None | Some r1 \<Rightarrow>
      case skip_spaces r1 of None \<Rightarrow> None | Some r2 \<Rightarrow>
      case strip_prefix ''id="__NEXT_DATA__"'' r2 of None \<Rightarrow> None | Some r3 \<Rightarrow>
      case skip_spaces r3 of None \<Rightarrow> None | Some r4 \<Rightarrow>
      case strip_prefix ''type="application/json">'' r4 of None \<Rightarrow> None | Some r5 \<Rightarrow>
      let captured = takeWhile (\<lambda>c. c \<noteq> CHR ''<'') r5 in
      if captured = [] then None
      else case strip_prefix ''</script>'' (dropWhile (\<lambda>c. c \<noteq> CHR ''<'') r5) of
             None \<Rightarrow> None
           | Some r6 \<Rightarrow> Some captured)\<close>

text \<open>\<^verbatim>\<open>html.match(...)\<close>: the leftmost match, \<open>None\<close> for \<^verbatim>\<open>null\<close>.\<close>

fun match_next_data :: "string \<Rightarrow> string option" where
  "match_next_data [] = match_here []"
| "match_next_data (c # cs) =
     (case match_here (c # cs) of Some g \<Rightarrow> Some g | None \<Rightarrow> match_next_data cs)"

text \<open>The page that is fetched: the input itself when it starts with \<^verbatim>\<open>http\<close>.\<close>

definition page_url :: "string \<Rightarrow> string" where
  "page_url urlOrSlug =
     (if prefix ''http'' urlOrSlug then urlOrSlug else ITEM_BASE @ urlOrSlug)"

text \<open>\<^verbatim>\<open>nextData?.props?.pageProps?.item?.id\<close>\<close>

definition item_id_path :: "json \<Rightarrow> json" where
  "item_id_path nextData =
     opt_prop (opt_prop (opt_prop (opt_prop nextData ''props'') ''pageProps'') ''item'') ''id''"

text \<open>
  \<open>getItemHash\<close> of client.ts. The page fetch \<^verbatim>\<open>(await fetch(fullUrl, ...)).text()\<close> is
  the parameter \<open>fetch_text\<close>, which yields the body text of the response whatever its
  status, or the error of a failed request. \<^verbatim>\<open>JSON.parse\<close> is the parameter
  \<open>JSON_parse\<close>, where \<open>None\<close> stands for the SyntaxError it throws. The captured group is
  never empty, so \<^verbatim>\<open>!match?.[1]\<close> holds exactly when there is no match.
\<close>

definition getItemHash ::
  "(string \<Rightarrow> js_error + string) \<Rightarrow> (string \<Rightarrow> json option) \<Rightarrow> string \<Rightarrow> js_error + json" where
  "getItemHash fetch_text JSON_parse urlOrSlug =
     ebind (fetch_text (page_url urlOrSlug)) (\<lambda>html.
       case match_next_data html of
         None \<Rightarrow> Inl (Error ''Could not find __NEXT_DATA__ in page'')
       | Some captured \<Rightarrow>
           (case JSON_parse captured of
              None \<Rightarrow> Inl SyntaxError
            | Some nextData \<Rightarrow>
                (let h = item_id_path nextData in
                 if \<not> truthy h
                 then Inl (Error ''Could not extract item hash from page data'')
                 else Inr h)))"

text \<open>\<open>getItemHash\<close> of client.js: the text of the last message differs.\<close>

definition getItemHash_js ::
  "(string \<Rightarrow> js_error + string) \<Rightarrow> (string \<Rightarrow> json option) \<Rightarrow> string \<Rightarrow> js_error + json" where
  "getItemHash_js fetch_text JSON_parse urlOrSlug =
     ebind (fetch_text (page_url urlOrSlug)) (\<lambda>html.
       case match_next_data html of
         None \<Rightarrow> Inl (Error ''Could not find __NEXT_DATA__ in page'')
       | Some captured \<Rightarrow>
           (case JSON_parse captured of
              None \<Rightarrow> Inl SyntaxError
            | Some nextData \<Rightarrow>
                (let h = item_id_path nextData in
                 if \<not> truthy h
                 then Inl (Error ''Could not extract item hash from page'')
                 else Inr h)))"

section \<open>Instruction builder (browser.ts)\<close>

record ChatStep =
  action :: string
  url_step :: "string option"
  selector :: "string option"
  text_step :: "string option"
  submit :: "bool option"
  note_step :: string

record ChatInstructions =
  hash :: string
  chatUrl :: string
  message :: string
  steps :: "ChatStep list"

definition CHAT_BASE :: string where
  "CHAT_BASE = ''https://es.wallapop.com/app/chat''"

definition buildChatInstructions :: "string \<Rightarrow> string \<Rightarrow> ChatInstructions" where
  \<open>buildChatInstructions itemHash msg =
     (let chat = CHAT_BASE @ ''?itemId='' @ itemHash;
          steps =
            [ \<lparr>action = ''navigate'', url_step = Some chat, selector = None,
                text_step = None, submit = None,
                note_step = ''Opens chat thread with seller for this item''\<rparr>,
              \<lparr>action = ''snapshot'', url_step = None, selector = None,
                text_step = None, submit = None,
                note_step = ''Wait for page load, find textbox "Escribe un mensaje..."''\<rparr>,
              \<lparr>action = ''click'', url_step = None,
                selector = Some ''textbox "Escribe un mensaje..."'',
                text_step = None, submit = None,
                note_step = ''Focus the message input''\<rparr>,
              \<lparr>action = ''type'', url_step = None, selector = None,
                text_step = Some msg, submit = Some True,
                note_step = ''Type message and press Enter to send''\<rparr>,
              \<lparr>action = ''snapshot'', url_step = None, selector = None,
                text_step = None, submit = None,
                note_step = ''Verify message appears in chat with timestamp''\<rparr> ]
      in \<lparr>hash = itemHash, chatUrl = chat, message = msg, steps = steps\<rparr>)\<close>

section \<open>Composite search-and-contact (server.ts, server.js)\<close>

text \<open>
  The request body. The cast in server.ts is not checked, and \<open>limit\<close> goes through
  \<^verbatim>\<open>Math.min\<close>, which coerces whatever the JSON body holds: so \<open>limit_b\<close> is the
  JavaScript value of the property, \<open>JUndefined\<close> when the body has none. The other
  fields are taken at the types that the cast declares, in server.js as well.
\<close>

record ContactBody =
  query_b :: "string option"
  message_b :: "string option"
  maxPrice_b :: "jsnum option"
  minPrice_b :: "jsnum option"
  limit_b :: json
  distance_b :: "jsnum option"
  lat_b :: "jsnum option"
  lng_b :: "jsnum option"

record ChatFlow =
  step1 :: string
  step2 :: string

text \<open>A search item spread into a new object, with \<open>chatFlow\<close> added.\<close>

record ContactItem = SearchItem +
  chatFlow :: ChatFlow

record ContactResult =
  items_c :: "ContactItem list"
  total_c :: nat
  nextPage_c :: json

text \<open>The same in server.js, where the added property is \<open>chatInstructions\<close>.\<close>

record HashSteps =
  step1_getHash :: string
  step2_chat :: string

record ContactItem_js = SearchItem +
  chatInstructions :: HashSteps


text \<open>
  What a handler does with a request: \<^verbatim>\<open>res.status(400).json({ error })\<close>,
  \<^verbatim>\<open>next(err)\<close> with a caught error, or \<^verbatim>\<open>res.json(body)\<close>.
\<close>

datatype 'a reply = BadRequest string | Raised js_error | Ok 'a

text \<open>
  ToNumber, as \<^verbatim>\<open>Math.min\<close> and \<^verbatim>\<open>Number\<close> apply it. The reading of a text as a number
  belongs to the runtime and is the parameter \<open>strnum\<close>. An array or an object is first
  turned into text, as by \<open>ToString\<close> (the inherited \<^verbatim>\<open>valueOf\<close> returns the object
  itself, so \<^verbatim>\<open>toString\<close> decides), which can raise a TypeError.
\<close>

fun ToNumber :: "(jsnum \<Rightarrow> string) \<Rightarrow> (string \<Rightarrow> jsnum) \<Rightarrow> json \<Rightarrow> js_error + jsnum" where
  "ToNumber numstr strnum JUndefined = Inr NaN"
| "ToNumber numstr strnum JNull = Inr (Num 0)"
| "ToNumber numstr strnum (JBool b) = Inr (Num (if b then 1 else 0))"
| "ToNumber numstr strnum (JNum n) = Inr n"
| "ToNumber numstr strnum (JStr s) = Inr (strnum s)"
| "ToNumber numstr strnum (JArr xs) =
     ebind (ToString numstr (JArr xs)) (\<lambda>s. Inr (strnum s))"
| "ToNumber numstr strnum (JObj kvs) =
     ebind (ToString numstr (JObj kvs)) (\<lambda>s. Inr (strnum s))"

text \<open>A destructuring default \<^verbatim>\<open>{ v = d }\<close>: it replaces \<^verbatim>\<open>undefined\<close> only.\<close>

definition with_default :: "json \<Rightarrow> json \<Rightarrow> json" where
  "with_default v d = (if v = JUndefined then d else v)"

text \<open>
  \<^verbatim>\<open>Math.min(limit, 20)\<close> of server.ts for the destructured \<^verbatim>\<open>limit = 5\<close>, given the
  value of the body's \<open>limit\<close>. \<^verbatim>\<open>Math.min(Number(limit), 20)\<close> of server.js is the same
  computation: \<^verbatim>\<open>Number\<close> is the coercion that \<^verbatim>\<open>Math.min\<close> applies itself.
\<close>

definition capped_limit ::
  "(jsnum \<Rightarrow> string) \<Rightarrow> (string \<Rightarrow> jsnum) \<Rightarrow> json \<Rightarrow> js_error + jsnum" where
  "capped_limit numstr strnum v =
     ebind (ToNumber numstr strnum (with_default v (JNum (Num 5)))) (\<lambda>n.
       Inr (Math_min n (Num 20)))"

text \<open>The argument of \<^verbatim>\<open>client.search\<close> in server.ts.\<close>

definition contact_params ::
  "(jsnum \<Rightarrow> string) \<Rightarrow> (string \<Rightarrow> jsnum) \<Rightarrow> ContactBody \<Rightarrow> js_error + SearchParams" where
  "contact_params numstr strnum body =
     ebind (capped_limit numstr strnum (limit_b body)) (\<lambda>capped.
       Inr \<lparr> keywords_p = query_b body,
             minPrice = minPrice_b body,
             maxPrice = maxPrice_b body,
             distance_p = distance_b body,
             latitude = lat_b body,
             longitude = lng_b body,
             categoryId = None,
             orderBy = None,
             limit = Some capped,
             nextPage_p = None \<rparr>)"

text \<open>\<^verbatim>\<open>v ? Number(v) : undefined\<close> on an optional number: zero and \<^verbatim>\<open>NaN\<close> are
  dropped.\<close>

fun if_truthy :: "jsnum option \<Rightarrow> jsnum option" where
  "if_truthy None = None"
| "if_truthy (Some n) = (if truthy (JNum n) then Some n else None)"

text \<open>The argument of \<^verbatim>\<open>client.search\<close> in server.js.\<close>

definition contact_params_js ::
  "(jsnum \<Rightarrow> string) \<Rightarrow> (string \<Rightarrow> jsnum) \<Rightarrow> ContactBody \<Rightarrow> js_error + SearchParams" where
  "contact_params_js numstr strnum body =
     ebind (capped_limit numstr strnum (limit_b body)) (\<lambda>capped.
       Inr \<lparr> keywords_p = query_b body,
             minPrice = if_truthy (minPrice_b body),
             maxPrice = if_truthy (maxPrice_b body),
             distance_p = if_truthy (distance_b body),
             latitude = if_truthy (lat_b body),
             longitude = if_truthy (lng_b body),
             categoryId = None,
             orderBy = None,
             limit = Some capped,
             nextPage_p = None \<rparr>)"

text \<open>The object built for each available item.\<close>

definition annotate :: "(jsnum \<Rightarrow> string) \<Rightarrow> string \<Rightarrow> SearchItem \<Rightarrow> js_error + ContactItem" where
  \<open>annotate numstr msg item =
     ebind (ToString numstr (slug item)) (\<lambda>slug_text.
       Inr (SearchItem.extend item
         (ContactItem.fields
            \<lparr> step1 = ''GET /api/items/hash?slug='' @ slug_text,
              step2 = ''POST /api/chat { itemHash: "<hash>", message: "'' @ msg @ ''" }'' \<rparr>)))\<close>


text \<open>
  The handler of \<^verbatim>\<open>POST /api/search-and-contact\<close> in server.ts. An error of the
  coercion of \<open>limit\<close> is thrown inside the \<^verbatim>\<open>try\<close>, before the search is called.
\<close>

definition search_and_contact ::
  "(string \<Rightarrow> (string \<times> json) list \<Rightarrow> js_error + json) \<Rightarrow> (jsnum \<Rightarrow> string)
     \<Rightarrow> (string \<Rightarrow> jsnum) \<Rightarrow> ContactBody \<Rightarrow> ContactResult reply" where
  "search_and_contact api_get numstr strnum body =
     (if \<not> present_str (query_b body) then BadRequest ''query required''
      else if \<not> present_str (message_b body) then BadRequest ''message required''
      else
        case ebind (contact_params numstr strnum body) (search api_get numstr) of
          Inl err \<Rightarrow> Raised err
        | Inr results \<Rightarrow>
            (let available = filter (\<lambda>i. \<not> truthy (reserved i)) (items results) in
             case map_throw (annotate numstr (the (message_b body))) available of
               Inl err \<Rightarrow> Raised err
             | Inr its \<Rightarrow>
                 Ok \<lparr> items_c = its, total_c = length its, nextPage_c = nextPage results \<rparr>))"


section \<open>Notions of the specification and sample surroundings\<close>

text \<open>
  The specification speaks of an input that "starts with a URL scheme"; the program has
  no such test of its own (\<open>page_url\<close> looks for the four characters \<^verbatim>\<open>http\<close>). This
  definition follows the specification's words, with a scheme as in RFC 3986: a letter,
  then letters, digits, \<^verbatim>\<open>+\<close>, \<^verbatim>\<open>-\<close> or \<^verbatim>\<open>.\<close>, then a colon.
\<close>

definition is_alpha :: "char \<Rightarrow> bool" where
  "is_alpha c =
     (let n = (of_char c :: nat) in (97 \<le> n \<and> n \<le> 122) \<or> (65 \<le> n \<and> n \<le> 90))"

definition is_scheme_char :: "char \<Rightarrow> bool" where
  "is_scheme_char c =
     (is_alpha c \<or> (48 \<le> (of_char c :: nat) \<and> (of_char c :: nat) \<le> 57)
      \<or> c = CHR ''+'' \<or> c = CHR ''-'' \<or> c = CHR ''.'')"

definition starts_with_url_scheme :: "string \<Rightarrow> bool" where
  "starts_with_url_scheme s =
     (case s of
        [] \<Rightarrow> False
      | c # cs \<Rightarrow>
          is_alpha c \<and>
          (case dropWhile is_scheme_char cs of [] \<Rightarrow> False | d # ds \<Rightarrow> d = CHR '':''))"

text \<open>A value that a template literal can render without a TypeError.\<close>

definition renders :: "(jsnum \<Rightarrow> string) \<Rightarrow> json \<Rightarrow> bool" where
  "renders numstr v = (case ToString numstr v of Inl e \<Rightarrow> False | Inr s \<Rightarrow> True)"

text \<open>
  The examples are evaluated in these surroundings. The rendering of numbers is right on
  the special values and on zero; no example renders another number.
\<close>

fun numstr_sample :: "jsnum \<Rightarrow> string" where
  "numstr_sample NaN = ''NaN''"
| "numstr_sample PosInf = ''Infinity''"
| "numstr_sample NegInf = ''-Infinity''"
| "numstr_sample (Num r) = ''0''"

text \<open>A reading of texts as numbers that is right on the texts \<^verbatim>\<open>50\<close> and \<^verbatim>\<open>abc\<close>;
  no example reads another text.\<close>

definition strnum_sample :: "string \<Rightarrow> jsnum" where
  "strnum_sample s = (if s = ''50'' then Num 50 else NaN)"


text \<open>An upstream that answers every request with the same body.\<close>

definition answer_with :: "json \<Rightarrow> string \<Rightarrow> (string \<times> json) list \<Rightarrow> js_error + json" where
  "answer_with data path q = Inr data"

text \<open>A page host that answers every request with the same text.\<close>

definition serve_page :: "string \<Rightarrow> string \<Rightarrow> js_error + string" where
  "serve_page html u = Inr html"

text \<open>A page host that has one page only; a request for any other URL fails.\<close>

definition serve_only :: "string \<Rightarrow> string \<Rightarrow> string \<Rightarrow> js_error + string" where
  "serve_only known html u = (if u = known then Inr html else Inl TypeError)"

text \<open>Two JSON documents, as text and as the value \<^verbatim>\<open>JSON.parse\<close> gives them: one
  with the identifier at \<^verbatim>\<open>props.pageProps.item.id\<close>, one without the item.\<close>

definition doc_with_hash_text :: string where
  \<open>doc_with_hash_text = ''{"props":{"pageProps":{"item":{"id":"qzmmv570nlzv"}}}}''\<close>

definition doc_with_hash :: json where
  "doc_with_hash =
     JObj [(''props'', JObj [(''pageProps'',
       JObj [(''item'', JObj [(''id'', JStr ''qzmmv570nlzv'')])])])]"

definition doc_without_item_text :: string where
  \<open>doc_without_item_text = ''{"props":{"pageProps":{}}}''\<close>

definition doc_without_item :: json where
  "doc_without_item = JObj [(''props'', JObj [(''pageProps'', JObj [])])]"

text \<open>
  \<^verbatim>\<open>JSON.parse\<close> at the texts of the examples: the two documents, with their values;
  the third text of the examples, \<^verbatim>\<open>{oops\<close>, is not JSON and is rejected. No example
  parses any other text.
\<close>

definition JSON_parse_sample :: "string \<Rightarrow> json option" where
  "JSON_parse_sample t =
     (if t = doc_with_hash_text then Some doc_with_hash
      else if t = doc_without_item_text then Some doc_without_item
      else None)"

text \<open>Four pages: the hydration tag with the identifier, with the document that lacks
  the item, with a text that is not JSON, and no tag at all.\<close>

definition page_with_hash :: string where
  \<open>page_with_hash =
     ''<html><head><title>Mesa</title></head><body><div id="__next"></div>''
     @ ''<script id="__NEXT_DATA__" type="application/json">''
     @ doc_with_hash_text
     @ ''</script></body></html>''\<close>

definition page_without_item :: string where
  \<open>page_without_item =
     ''<html><body><script id="__NEXT_DATA__" type="application/json">''
     @ doc_without_item_text
     @ ''</script></body></html>''\<close>

definition page_bad_json :: string where
  \<open>page_bad_json =
     ''<html><body><script id="__NEXT_DATA__" type="application/json">''
     @ ''{oops''
     @ ''</script></body></html>''\<close>

definition page_without_tag :: string where
  \<open>page_without_tag = ''<html><body><h1>404</h1></body></html>''\<close>

text \<open>Raw search items as the upstream sends them: an available table, a reserved
  chair whose price has no currency, and an item whose currency is the empty string.\<close>

definition raw_mesa :: json where
  "raw_mesa =
     JObj [(''id'', JStr ''1232652380''), (''title'', JStr ''Mesa redonda''),
           (''price'', JObj [(''amount'', JNum (Num 50)), (''currency'', JStr ''USD'')]),
           (''web_slug'', JStr ''mesa-redonda-1232652380''),
           (''reserved'', JObj [(''flag'', JBool False)])]"

definition raw_silla :: json where
  "raw_silla =
     JObj [(''id'', JStr ''77''), (''title'', JStr ''Silla''),
           (''price'', JObj [(''amount'', JNum (Num 5))]),
           (''web_slug'', JStr ''silla-77''),
           (''reserved'', JObj [(''flag'', JBool True)])]"

definition raw_blank_currency :: json where
  "raw_blank_currency =
     JObj [(''id'', JStr ''78''),
           (''price'', JObj [(''amount'', JNum (Num 5)), (''currency'', JStr [])]),
           (''web_slug'', JStr ''lampara-78'')]"

text \<open>An upstream search response that carries the given raw items.\<close>

definition response_of :: "json list \<Rightarrow> json" where
  "response_of raw_items =
     JObj [(''data'', JObj [(''section'', JObj [(''payload'', JObj [(''items'', JArr raw_items)])])]),
           (''meta'', JObj [(''next_page'', JStr ''cursor-2'')])]"

text \<open>\<open>search()\<close> without arguments, a search by cursor, and a request body of the
  composite operation.\<close>

definition no_params :: SearchParams where
  "no_params =
     \<lparr> keywords_p = None, minPrice = None, maxPrice = None, distance_p = None,
       latitude = None, longitude = None, categoryId = None, orderBy = None,
       limit = None, nextPage_p = None \<rparr>"

definition cursor_params :: SearchParams where
  "cursor_params =
     \<lparr> keywords_p = Some ''mesa'', minPrice = None, maxPrice = Some (Num 50),
       distance_p = None, latitude = None, longitude = None, categoryId = None,
       orderBy = Some ''newest'', limit = Some (Num 10), nextPage_p = Some ''cursor-2'' \<rparr>"

definition hola_body :: ContactBody where
  "hola_body =
     \<lparr> query_b = Some ''mesa'', message_b = Some ''Hola!'', maxPrice_b = Some (Num 50),
       minPrice_b = None, limit_b = JNum (Num 50), distance_b = None,
       lat_b = None, lng_b = None \<rparr>"

text \<open>What \<open>simplifySearchItem\<close> makes of the table and of the chair.\<close>

definition item_mesa :: SearchItem where
  "item_mesa =
     \<lparr> id_i = JStr ''1232652380'', title = JStr ''Mesa redonda'', price = JNum (Num 50),
       currency = JStr ''USD'', city = JUndefined, distance = JUndefined,
       slug = JStr ''mesa-redonda-1232652380'',
       url = ''https://es.wallapop.com/item/mesa-redonda-1232652380'',
       image_i = JUndefined, sellerId = JUndefined, reserved = JBool False,
       shippable = JBool False, createdAt = JUndefined \<rparr>"

definition item_silla :: SearchItem where
  "item_silla =
     \<lparr> id_i = JStr ''77'', title = JStr ''Silla'', price = JNum (Num 5),
       currency = JStr ''EUR'', city = JUndefined, distance = JUndefined,
       slug = JStr ''silla-77'', url = ''https://es.wallapop.com/item/silla-77'',
       image_i = JUndefined, sellerId = JUndefined, reserved = JBool True,
       shippable = JBool False, createdAt = JUndefined \<rparr>"

definition two_items :: SearchResult where
  "two_items = \<lparr> items = [item_mesa, item_silla], nextPage = JStr ''cursor-2'', total = 2 \<rparr>"

text \<open>The search parameters that the handler builds from the sample request.\<close>

definition capped_params :: SearchParams where
  "capped_params =
     \<lparr> keywords_p = Some ''mesa'', minPrice = None, maxPrice = Some (Num 50),
       distance_p = None, latitude = None, longitude = None, categoryId = None,
       orderBy = None, limit = Some (Num 20), nextPage_p = None \<rparr>"

text \<open>The one item of the composite answer to the sample search.\<close>

definition one_contact :: ContactItem where
  \<open>one_contact =
     SearchItem.extend item_mesa
       (ContactItem.fields
          \<lparr> step1 = ''GET /api/items/hash?slug=mesa-redonda-1232652380'',
            step2 = ''POST /api/chat { itemHash: "<hash>", message: "Hola!" }'' \<rparr>)\<close>

section \<open>Verified properties\<close>

subsection \<open>Auxiliary facts\<close>

lemma ebind_simps [simp]:
  "ebind (Inl e) f = Inl e"
  "ebind (Inr v) f = f v"
  by (simp_all add: ebind_def)

lemma get_prop_not_nullish: "\<not> nullish v \<Longrightarrow> get_prop v k = Inr (opt_prop v k)"
  by (cases v) (simp_all add: opt_prop_def)

lemma get_prop_nullish: "nullish v \<Longrightarrow> get_prop v k = Inl TypeError"
  by (cases v) simp_all

lemma truthy_not_nullish: "truthy v \<Longrightarrow> \<not> nullish v"
  by (cases v) simp_all

lemma js_or_array_not_nullish: "\<not> nullish (js_or v (JArr xs))"
  by (simp add: js_or_def truthy_not_nullish)

text \<open>A conversion to text can only fail with a TypeError.\<close>

lemma ToString_errors: "ToString numstr v = Inl e \<Longrightarrow> e = TypeError"
  and join_elems_errors: "join_elems numstr xs = Inl e \<Longrightarrow> e = TypeError"
  by (induction numstr v and numstr xs rule: ToString_join_elems.induct)
     (auto simp: ebind_def split: option.splits sum.splits if_splits)

lemma renders_iff: "renders numstr v \<longleftrightarrow> (\<exists>s. ToString numstr v = Inr s)"
  by (simp add: renders_def split: sum.splits)

text \<open>Everything but an object or an array can be rendered.\<close>

lemma renders_primitive:
  "renders numstr JUndefined" "renders numstr JNull" "renders numstr (JBool b)"
  "renders numstr (JNum n)" "renders numstr (JStr s)"
  by (simp_all add: renders_def)

lemma not_renders: "\<not> renders numstr v \<Longrightarrow> ToString numstr v = Inl TypeError"
  using ToString_errors [of numstr v] by (cases "ToString numstr v") (auto simp: renders_def)

text \<open>The map succeeds exactly when the function succeeds on every element.\<close>

lemma map_throw_Inr: "map_throw f xs = Inr ys \<longleftrightarrow> list_all2 (\<lambda>x y. f x = Inr y) xs ys"
proof (induction xs arbitrary: ys)
  case Nil
  then show ?case by auto
next
  case (Cons x xs)
  show ?case
  proof (cases "f x")
    case (Inl e)
    then show ?thesis by (auto simp: list_all2_Cons1)
  next
    case fx: (Inr y)
    show ?thesis
    proof (cases "map_throw f xs")
      case (Inl e)
      with Cons.IH fx show ?thesis by (auto simp: list_all2_Cons1)
    next
      case (Inr zs)
      with Cons.IH fx show ?thesis by (auto simp: list_all2_Cons1)
    qed
  qed
qed

lemma map_throw_total:
  "list_all (\<lambda>x. \<exists>y. f x = Inr y) xs \<Longrightarrow> \<exists>ys. map_throw f xs = Inr ys"
proof (induction xs)
  case Nil
  then show ?case by simp
next
  case (Cons x xs)
  then show ?case by auto
qed

lemma list_all2_rightD:
  "list_all2 P xs ys \<Longrightarrow> z \<in> set ys \<Longrightarrow> \<exists>y. y \<in> set xs \<and> P y z"
  by (induction rule: list_all2_induct) auto

subsection \<open>Search items\<close>

lemma simplifySearchItem_value:
  assumes "\<not> nullish item" and "ToString numstr (opt_prop item ''web_slug'') = Inr s"
  shows "simplifySearchItem numstr item =
       Inr \<lparr> id_i = opt_prop item ''id'',
             title = opt_prop item ''title'',
             price = opt_prop (opt_prop item ''price'') ''amount'',
             currency = js_or (opt_prop (opt_prop item ''price'') ''currency'') (JStr ''EUR''),
             city = opt_prop (opt_prop item ''location'') ''city'',
             distance = opt_prop item ''distance'',
             slug = opt_prop item ''web_slug'',
             url = ITEM_BASE @ s,
             image_i = opt_prop (opt_prop (opt_first (opt_prop item ''images'')) ''urls'') ''medium'',
             sellerId = opt_prop item ''user_id'',
             reserved = js_or (opt_prop (opt_prop item ''reserved'') ''flag'') (JBool False),
             shippable = js_or (opt_prop (opt_prop item ''shipping'') ''user_allows_shipping'')
                           (JBool False),
             createdAt = opt_prop item ''created_at'' \<rparr>"
  using assms by (simp add: simplifySearchItem_def get_prop_not_nullish del: get_prop.simps)

lemma simplifySearchItem_nullish:
  "nullish item \<Longrightarrow> simplifySearchItem numstr item = Inl TypeError"
  by (simp add: simplifySearchItem_def get_prop_nullish del: get_prop.simps)

lemma simplifySearchItem_Inr:
  assumes "simplifySearchItem numstr item = Inr y"
  shows "\<not> nullish item"
    and "ToString numstr (slug y) = Inr (drop (length ITEM_BASE) (url y))"
    and "slug y = opt_prop item ''web_slug''"
    and "currency y = js_or (opt_prop (opt_prop item ''price'') ''currency'') (JStr ''EUR'')"
    and "reserved y = js_or (opt_prop (opt_prop item ''reserved'') ''flag'') (JBool False)"
proof -
  show nn: "\<not> nullish item"
    using assms simplifySearchItem_nullish [of item numstr] by auto
  obtain s where s: "ToString numstr (opt_prop item ''web_slug'') = Inr s"
    using assms nn
    by (cases "ToString numstr (opt_prop item ''web_slug'')")
       (simp_all add: simplifySearchItem_def get_prop_not_nullish del: get_prop.simps)
  from assms simplifySearchItem_value [OF nn s]
  show "ToString numstr (slug y) = Inr (drop (length ITEM_BASE) (url y))"
    and "slug y = opt_prop item ''web_slug''"
    and "currency y = js_or (opt_prop (opt_prop item ''price'') ''currency'') (JStr ''EUR'')"
    and "reserved y = js_or (opt_prop (opt_prop item ''reserved'') ''flag'') (JBool False)"
    using s by auto
qed

text \<open>What a successful search says about the upstream response.\<close>

lemma search_Inr:
  assumes "search api_get numstr params = Inr r"
  shows "\<exists>data raw_items.
           api_get ''/search'' (search_query params) = Inr data
         \<and> payload_items data = JArr raw_items
         \<and> list_all2 (\<lambda>x y. simplifySearchItem numstr x = Inr y) raw_items (items r)
         \<and> total r = length raw_items
         \<and> nextPage r = js_or (opt_prop (opt_prop data ''meta'') ''next_page'') JNull"
proof (cases "api_get ''/search'' (search_query params)")
  case (Inl e)
  with assms show ?thesis by (simp add: search_def)
next
  case data: (Inr data)
  show ?thesis
  proof (cases "payload_items data")
    case (JArr raw_items)
    show ?thesis
    proof (cases "map_throw (simplifySearchItem numstr) raw_items")
      case (Inl e)
      with assms data JArr show ?thesis by (simp add: search_def)
    next
      case (Inr its)
      with assms data JArr have "r = \<lparr> items = its,
          nextPage = js_or (opt_prop (opt_prop data ''meta'') ''next_page'') JNull,
          total = length raw_items \<rparr>"
        by (simp add: search_def)
      with Inr data JArr show ?thesis by (simp add: map_throw_Inr)
    qed
  qed (use assms data in \<open>simp_all add: search_def\<close>)
qed

text \<open>The two implementations build the same query.\<close>

lemma search_query_js_eq: "search_query_js p = search_query p"
  by (simp add: search_query_js_def search_query_def Let_def)





text \<open>The sample search, evaluated.\<close>

lemma sample_items:
  "simplifySearchItem numstr_sample raw_mesa = Inr item_mesa"
  "simplifySearchItem numstr_sample raw_silla = Inr item_silla"
  by (simp_all add: simplifySearchItem_def raw_mesa_def raw_silla_def item_mesa_def
      item_silla_def opt_prop_def js_or_def ITEM_BASE_def)

lemma sample_search:
  "search (answer_with (response_of [raw_mesa, raw_silla])) numstr_sample params = Inr two_items"
  by (simp add: search_def answer_with_def response_of_def payload_items_def opt_prop_def
      js_or_def sample_items two_items_def)

subsection \<open>Composite items\<close>

lemma extend_reserved [simp]: "reserved (SearchItem.extend item ext) = reserved item"
  by (simp add: SearchItem.defs)

lemma extend_slug [simp]: "slug (SearchItem.extend item ext) = slug item"
  by (simp add: SearchItem.defs)

lemma extend_chatFlow [simp]:
  "chatFlow (SearchItem.extend item (ContactItem.fields cf)) = cf"
  by (simp add: SearchItem.defs ContactItem.defs)

lemma truncate_extend [simp]:
  "SearchItem.truncate (SearchItem.extend (item :: SearchItem) ext) = item"
  by (simp add: SearchItem.defs)

lemma annotate_Inr:
  assumes "annotate numstr msg y = Inr z"
  shows "SearchItem.truncate z = y"
    and "reserved z = reserved y"
    and "\<exists>s. ToString numstr (slug z) = Inr s
            \<and> step1 (chatFlow z) = ''GET /api/items/hash?slug='' @ s"
    and \<open>step2 (chatFlow z)
           = ''POST /api/chat { itemHash: "<hash>", message: "'' @ msg @ ''" }''\<close>
proof -
  from assms obtain s where s: "ToString numstr (slug y) = Inr s"
    by (cases "ToString numstr (slug y)") (simp_all add: annotate_def)
  with assms have z: \<open>z = SearchItem.extend y
         (ContactItem.fields
            \<lparr> step1 = ''GET /api/items/hash?slug='' @ s,
              step2 = ''POST /api/chat { itemHash: "<hash>", message: "'' @ msg @ ''" }'' \<rparr>)\<close>
    by (simp add: annotate_def)
  show "SearchItem.truncate z = y" and "reserved z = reserved y"
    by (simp_all only: z truncate_extend extend_reserved)
  show "\<exists>s. ToString numstr (slug z) = Inr s
            \<and> step1 (chatFlow z) = ''GET /api/items/hash?slug='' @ s"
    using s by (simp only: z extend_slug extend_chatFlow) simp
  show \<open>step2 (chatFlow z)
           = ''POST /api/chat { itemHash: "<hash>", message: "'' @ msg @ ''" }''\<close>
    by (simp only: z extend_chatFlow) simp
qed

lemma annotate_total:
  "ToString numstr (slug y) = Inr s \<Longrightarrow> \<exists>z. annotate numstr msg y = Inr z"
  by (simp add: annotate_def)

subsection \<open>The capped limit\<close>












text \<open>A limit that is a number, or missing, is always coerced.\<close>

lemma contact_params_number:
  "limit_b body = JUndefined \<or> limit_b body = JNum n \<Longrightarrow>
     (\<exists>p. contact_params numstr strnum body = Inr p)
     \<and> (\<exists>p. contact_params_js numstr strnum body = Inr p)"
  by (auto simp: contact_params_def contact_params_js_def capped_limit_def with_default_def)





text \<open>The sample request, evaluated.\<close>

lemma sample_capped:
  "capped_limit numstr_sample strnum_sample (limit_b hola_body) = Inr (Num 20)"
  by (simp add: capped_limit_def with_default_def hola_body_def)

lemma sample_params:
  "contact_params numstr_sample strnum_sample hola_body = Inr capped_params"
  by (simp add: contact_params_def sample_capped) (simp add: hola_body_def capped_params_def)

lemma sample_contact:
  "search_and_contact (answer_with (response_of [raw_mesa, raw_silla])) numstr_sample
     strnum_sample hola_body
     = Ok \<lparr> items_c = [one_contact], total_c = 1, nextPage_c = JStr ''cursor-2'' \<rparr>"
proof -
  have f: "filter (\<lambda>i. \<not> truthy (reserved i)) (items two_items) = [item_mesa]"
    by (simp add: two_items_def item_mesa_def item_silla_def)
  have a: "annotate numstr_sample ''Hola!'' item_mesa = Inr one_contact"
    by (simp add: annotate_def one_contact_def item_mesa_def)
  have n: "nextPage two_items = JStr ''cursor-2''"
    by (simp add: two_items_def)
  have q: "present_str (query_b hola_body)" "present_str (message_b hola_body)"
    "the (message_b hola_body) = ''Hola!''"
    by (simp_all add: hola_body_def)
  show ?thesis
    by (simp add: search_and_contact_def sample_params sample_search f a n q)
qed

subsection \<open>Item details\<close>

lemma unwrap_original_null: "unwrap_original JNull = Inl TypeError"
  by (simp add: unwrap_original_def)

lemma unwrap_original_value:
  "t \<noteq> JNull \<Longrightarrow>
     unwrap_original t = Inr (if typeof_object t then opt_prop t ''original'' else t)"
  by (cases t) (simp_all add: unwrap_original_def opt_prop_def)

lemma details_literal_obj:
  "ToString numstr (opt_prop (JObj kvs) ''web_slug'') = Inr s \<Longrightarrow>
   details_literal numstr (JObj kvs) a b c =
     Inr \<lparr> id_d = opt_prop (JObj kvs) ''id'',
           title_d = a,
           description = b,
           price_d = c,
           currency_d =
             js_or (opt_prop (opt_prop (opt_prop (JObj kvs) ''price'') ''cash'') ''currency'')
               (js_or (opt_prop (opt_prop (JObj kvs) ''price'') ''currency'') (JStr ''EUR'')),
           city_d = opt_prop (opt_prop (JObj kvs) ''location'') ''city'',
           seller = \<lparr> id_seller = opt_prop (opt_prop (JObj kvs) ''user'') ''id'',
                      name_seller = opt_prop (opt_prop (JObj kvs) ''user'') ''micro_name'' \<rparr>,
           slug_d = opt_prop (JObj kvs) ''web_slug'',
           url_d = ITEM_BASE @ s,
           images = opt_prop (js_or (opt_prop (JObj kvs) ''images'') (JArr [])) ''length'',
           reserved_d = js_or (opt_prop (opt_prop (JObj kvs) ''reserved'') ''flag'') (JBool False),
           sold = js_or (opt_prop (opt_prop (JObj kvs) ''sold'') ''flag'') (JBool False),
           counters = js_or (opt_prop (JObj kvs) ''counters'') JNull,
           createdAt_d = opt_prop (JObj kvs) ''creation_date'' \<rparr>"
  by (simp add: details_literal_def get_prop_not_nullish js_or_array_not_nullish
      del: get_prop.simps)

lemma details_literal_unrenderable:
  "ToString numstr (opt_prop (JObj kvs) ''web_slug'') = Inl e \<Longrightarrow>
   details_literal numstr (JObj kvs) a b c = Inl e"
  by (simp add: details_literal_def get_prop_not_nullish del: get_prop.simps)

subsection \<open>The pattern\<close>

lemma strip_prefix_Some: "strip_prefix p s = Some r \<longleftrightarrow> s = p @ r"
proof (induction p s rule: strip_prefix.induct)
  case (1 s)
  then show ?case by auto
next
  case (2 p ps)
  then show ?case by simp
next
  case (3 p ps c cs)
  then show ?case by auto
qed

lemma match_here_script: "match_here s = Some g \<Longrightarrow> prefix ''<script'' s"
  by (auto simp: match_here_def prefix_def strip_prefix_Some split: option.splits)

text \<open>A tag with a content that is not empty and has no \<^verbatim>\<open><\<close> is matched where it
  begins, and the content is the captured group.\<close>

lemma match_here_tag:
  assumes "t \<noteq> []" and "CHR ''<'' \<notin> set t"
  shows \<open>match_here (''<script id="__NEXT_DATA__" type="application/json">'' @ t
           @ ''</script>'' @ rest) = Some t\<close>
proof -
  have tw: "takeWhile (\<lambda>c. c \<noteq> CHR ''<'') (t @ CHR ''<'' # more) = t" for more
    using assms(2) by (induction t) auto
  have dw: "dropWhile (\<lambda>c. c \<noteq> CHR ''<'') (t @ CHR ''<'' # more) = CHR ''<'' # more"
    for more
    using assms(2) by (induction t) auto
  show ?thesis
    using assms(1)
    by (simp add: match_here_def skip_spaces_def is_space_def tw dw)
qed

text \<open>The search passes over every position at which there is no match.\<close>

lemma match_next_data_skip:
  "(\<forall>i<length pre. match_here (drop i (pre @ s)) = None) \<Longrightarrow>
     match_next_data (pre @ s) = match_next_data s"
proof (induction pre)
  case Nil
  then show ?case by simp
next
  case (Cons c pre)
  from Cons.prems have here: "match_here (c # pre @ s) = None"
    by (auto dest: spec [of _ 0])
  from Cons.prems have "\<forall>i<length pre. match_here (drop i (pre @ s)) = None"
    by (auto dest: spec [of _ "Suc i" for i])
  with Cons.IH here show ?case by simp
qed

text \<open>A page without any \<^verbatim>\<open><script\<close> has no match.\<close>

lemma match_next_data_no_script:
  "\<not> (\<exists>pre post. html = pre @ ''<script'' @ post) \<Longrightarrow> match_next_data html = None"
proof (induction html)
  case Nil
  then show ?case by (simp add: match_here_def)
next
  case (Cons c cs)
  have "match_here (c # cs) = None"
  proof (cases "match_here (c # cs)")
    case (Some g)
    from match_here_script [OF this] obtain post where "c # cs = ''<script'' @ post"
      by (auto simp: prefix_def)
    then have "c # cs = [] @ ''<script'' @ post" by simp
    with Cons.prems show ?thesis by blast
  qed simp
  moreover have "\<not> (\<exists>pre post. cs = pre @ ''<script'' @ post)"
  proof
    assume "\<exists>pre post. cs = pre @ ''<script'' @ post"
    then obtain pre post where "cs = pre @ ''<script'' @ post" by blast
    then have "c # cs = (c # pre) @ ''<script'' @ post" by simp
    with Cons.prems show False by blast
  qed
  ultimately show ?case using Cons.IH by simp
qed

subsection \<open>The sample pages\<close>

lemma sample_matches:
  "match_next_data page_with_hash = Some doc_with_hash_text"
  "match_next_data page_without_item = Some doc_without_item_text"
  "match_next_data page_bad_json = Some ''{oops''"
  "match_next_data page_without_tag = None"
  by (simp_all add: page_with_hash_def page_without_item_def page_bad_json_def
      page_without_tag_def doc_with_hash_text_def doc_without_item_text_def
      match_here_def skip_spaces_def is_space_def)

lemma sample_parses:
  "JSON_parse_sample doc_with_hash_text = Some doc_with_hash"
  "JSON_parse_sample doc_without_item_text = Some doc_without_item"
  "JSON_parse_sample ''{oops'' = None"
  by (simp_all add: JSON_parse_sample_def doc_with_hash_text_def doc_without_item_text_def)

lemma sample_paths:
  "item_id_path doc_with_hash = JStr ''qzmmv570nlzv''"
  "item_id_path doc_without_item = JUndefined"
  by (simp_all add: item_id_path_def doc_with_hash_def doc_without_item_def opt_prop_def)

subsection \<open>The claims\<close>

text \<open>
  Claim C2. For every hash and message, \<open>buildChatInstructions\<close> returns exactly five
  steps in the order navigate, snapshot (wait for render), click, type (and submit),
  snapshot; the navigate step's url and the result's chatUrl are both the chat base URL
  followed by \<^verbatim>\<open>?itemId=\<close> and the hash (for the hash \<^verbatim>\<open>qzmmv570nlzv\<close>, the chat base
  followed by \<^verbatim>\<open>?itemId=qzmmv570nlzv\<close>); the type step carries exactly the given
  message with submit set.
\<close>

theorem buildChatInstructions_steps:
  "length (steps (buildChatInstructions h m)) = 5
   \<and> map action (steps (buildChatInstructions h m))
       = [''navigate'', ''snapshot'', ''click'', ''type'', ''snapshot'']
   \<and> url_step (steps (buildChatInstructions h m) ! 0) = Some (CHAT_BASE @ ''?itemId='' @ h)
   \<and> chatUrl (buildChatInstructions h m) = CHAT_BASE @ ''?itemId='' @ h
   \<and> text_step (steps (buildChatInstructions h m) ! 3) = Some m
   \<and> submit (steps (buildChatInstructions h m) ! 3) = Some True
   \<and> hash (buildChatInstructions h m) = h
   \<and> message (buildChatInstructions h m) = m
   \<and> chatUrl (buildChatInstructions ''qzmmv570nlzv'' m)
       = ''https://es.wallapop.com/app/chat?itemId=qzmmv570nlzv''"
  by (simp add: buildChatInstructions_def CHAT_BASE_def Let_def)

text \<open>
  Claim C3, as amended. When the cursor \<open>nextPage\<close> is present and not empty, the query
  that \<open>search\<close> sends upstream consists of exactly four entries: the constants
  \<^verbatim>\<open>step\<close> and \<^verbatim>\<open>source\<close>, the page-size \<^verbatim>\<open>limit\<close> (the caller's, or 20) and the
  cursor \<^verbatim>\<open>next_page\<close>. No keywords, price bound, coordinate, distance, category or
  sort order is sent alongside; the limit is. Both implementations build this query.
\<close>

theorem cursor_query:
  "present_str (nextPage_p params) \<Longrightarrow>
     search_query params =
       [(''step'', JNum (Num 1)), (''source'', JStr ''keywords''),
        (''limit'', JNum (num_or (limit params) (Num 20))),
        (''next_page'', JStr (the (nextPage_p params)))]
     \<and> search_query_js params = search_query params"
  by (simp add: search_query_js_eq) (simp add: search_query_def)

text \<open>The amended claim at a search that carries a cursor next to keywords, a price
  bound, a sort order and a limit of 10.\<close>

theorem cursor_query_witness:
  "present_str (nextPage_p cursor_params)
   \<and> search_query cursor_params =
       [(''step'', JNum (Num 1)), (''source'', JStr ''keywords''),
        (''limit'', JNum (Num 10)), (''next_page'', JStr ''cursor-2'')]
   \<and> search_query_js cursor_params = search_query cursor_params"
  using cursor_query [of cursor_params]
  by (simp add: cursor_params_def)

text \<open>Claim C3 as stated fails: with a cursor present the query also carries the
  page-size limit, in both implementations.\<close>

theorem cursor_with_limit_counterexample:
  "present_str (nextPage_p cursor_params)
   \<and> map_of (search_query cursor_params) ''next_page'' = Some (JStr ''cursor-2'')
   \<and> map_of (search_query cursor_params) ''limit'' = Some (JNum (Num 10))
   \<and> map_of (search_query_js cursor_params) ''limit'' = Some (JNum (Num 10))"
  by (simp add: search_query_def search_query_js_def cursor_params_def)

text \<open>
  Claim C7, as amended. \<open>getItemHash\<close> fetches its input verbatim when the input starts
  with the four characters \<^verbatim>\<open>http\<close> (as every http and https URL does), and fetches
  the canonical item URL made from the input when it does not start with \<^verbatim>\<open>http\<close>.
  The page at that URL is the only one fetched: two page hosts that agree there give the
  same result.
\<close>

theorem page_url_cases:
  "(prefix ''http'' u \<longrightarrow> page_url u = u)
   \<and> (\<not> prefix ''http'' u \<longrightarrow> page_url u = ITEM_BASE @ u)
   \<and> (fetch_a (page_url u) = fetch_b (page_url u) \<longrightarrow>
        getItemHash fetch_a parse u = getItemHash fetch_b parse u
        \<and> getItemHash_js fetch_a parse u = getItemHash_js fetch_b parse u)"
  by (simp add: page_url_def getItemHash_def getItemHash_js_def)

text \<open>The amended claim at an item URL and at a slug.\<close>

theorem page_url_cases_witness:
  "prefix ''http'' ''https://es.wallapop.com/item/mesa-1''
   \<and> page_url ''https://es.wallapop.com/item/mesa-1'' = ''https://es.wallapop.com/item/mesa-1''
   \<and> \<not> prefix ''http'' ''mesa-1''
   \<and> page_url ''mesa-1'' = ''https://es.wallapop.com/item/mesa-1''
   \<and> serve_page page_with_hash (page_url ''mesa-1'')
       = serve_only ''https://es.wallapop.com/item/mesa-1'' page_with_hash (page_url ''mesa-1'')
   \<and> getItemHash (serve_page page_with_hash) JSON_parse_sample ''mesa-1''
       = getItemHash (serve_only ''https://es.wallapop.com/item/mesa-1'' page_with_hash)
           JSON_parse_sample ''mesa-1''"
  using page_url_cases [of "''https://es.wallapop.com/item/mesa-1''"]
    page_url_cases [of "''mesa-1''" "serve_page page_with_hash"
      "serve_only ''https://es.wallapop.com/item/mesa-1'' page_with_hash" JSON_parse_sample]
  by (simp add: ITEM_BASE_def serve_page_def serve_only_def)

text \<open>Claim C7 as stated fails in both directions: an input with the scheme \<^verbatim>\<open>ftp\<close> is
  not fetched verbatim, and a slug that begins with \<^verbatim>\<open>http\<close>, which starts with no URL
  scheme, is fetched verbatim instead of through the canonical item URL.\<close>

theorem url_scheme_counterexample:
  "starts_with_url_scheme ''ftp://example.com/item/mesa-1''
   \<and> page_url ''ftp://example.com/item/mesa-1''
       = ''https://es.wallapop.com/item/ftp://example.com/item/mesa-1''
   \<and> \<not> starts_with_url_scheme ''http-cable-123''
   \<and> page_url ''http-cable-123'' = ''http-cable-123''
   \<and> page_url ''http-cable-123'' \<noteq> ITEM_BASE @ ''http-cable-123''"
  by (simp add: starts_with_url_scheme_def is_alpha_def is_scheme_char_def page_url_def
      ITEM_BASE_def)



text \<open>
  Claim C8. The two implementations of \<open>simplifyItemDetails\<close> are not extensionally
  equal: there is a raw item without any price field on which the one of client.ts gives
  the price 0 and the one of client.js leaves the price undefined, so the results differ.
\<close>

theorem normalizers_differ:
  "\<exists>raw. opt_prop raw ''price'' = JUndefined
     \<and> map_sum id price_d (simplifyItemDetails numstr raw) = Inr (JNum (Num 0))
     \<and> map_sum id price_d (simplifyItemDetails_js numstr raw) = Inr JUndefined
     \<and> simplifyItemDetails numstr raw \<noteq> simplifyItemDetails_js numstr raw"
proof (rule exI [of _ "JObj []"], intro conjI)
  have s: "ToString numstr (opt_prop (JObj []) ''web_slug'') = Inr ''undefined''"
    by (simp add: opt_prop_def)
  show "opt_prop (JObj []) ''price'' = JUndefined"
    by (simp add: opt_prop_def)
  show ts: "map_sum id price_d (simplifyItemDetails numstr (JObj [])) = Inr (JNum (Num 0))"
    by (simp add: simplifyItemDetails_def unwrap_original_def details_literal_obj [OF s]
        cash_or_flat_amount_def js_coalesce_def opt_prop_def)
  show js: "map_sum id price_d (simplifyItemDetails_js numstr (JObj [])) = Inr JUndefined"
    by (simp add: simplifyItemDetails_js_def unwrap_original_def details_literal_obj [OF s]
        cash_or_flat_amount_def js_coalesce_def opt_prop_def)
  from ts js show "simplifyItemDetails numstr (JObj []) \<noteq> simplifyItemDetails_js numstr (JObj [])"
    by auto
qed

text \<open>
  Claim C10. The \<open>total\<close> of a search result is the length of the item list of that same
  result, and the \<open>total\<close> of a composite result is the length of its own item list,
  which is the number of items of the underlying search that are not reserved. No
  upstream count enters either number.
\<close>

theorem total_is_length_of_items:
  "(search api_get numstr params = Inr r \<longrightarrow> total r = length (items r))
   \<and> (search_and_contact api_get numstr strnum body = Ok c \<longrightarrow>
        total_c c = length (items_c c)
        \<and> (\<exists>p r. contact_params numstr strnum body = Inr p
              \<and> search api_get numstr p = Inr r
              \<and> total_c c = length (filter (\<lambda>i. \<not> truthy (reserved i)) (items r))))"
proof (intro conjI impI)
  assume "search api_get numstr params = Inr r"
  from search_Inr [OF this] show "total r = length (items r)"
    by (auto dest: list_all2_lengthD)
next
  assume ok: "search_and_contact api_get numstr strnum body = Ok c"
  then obtain r
    where pr: "ebind (contact_params numstr strnum body) (search api_get numstr) = Inr r"
    by (cases "ebind (contact_params numstr strnum body) (search api_get numstr)")
       (auto simp: search_and_contact_def split: if_splits)
  then obtain p where p: "contact_params numstr strnum body = Inr p"
    and r: "search api_get numstr p = Inr r"
    by (cases "contact_params numstr strnum body") auto
  let ?avail = "filter (\<lambda>i. \<not> truthy (reserved i)) (items r)"
  from ok pr obtain its
    where its: "map_throw (annotate numstr (the (message_b body))) ?avail = Inr its"
      and c: "c = \<lparr> items_c = its, total_c = length its, nextPage_c = nextPage r \<rparr>"
    by (cases "map_throw (annotate numstr (the (message_b body))) ?avail")
       (auto simp: search_and_contact_def Let_def split: if_splits)
  from its have "length its = length ?avail"
    by (auto simp: map_throw_Inr dest: list_all2_lengthD)
  with c p r show "total_c c = length (items_c c)"
    and "\<exists>p r. contact_params numstr strnum body = Inr p
              \<and> search api_get numstr p = Inr r
              \<and> total_c c = length (filter (\<lambda>i. \<not> truthy (reserved i)) (items r))"
    by auto
qed

text \<open>Claim C10 at a response with two raw items, one of them reserved: the search
  reports 2, the composite operation reports 1.\<close>

theorem total_is_length_of_items_witness:
  "search (answer_with (response_of [raw_mesa, raw_silla])) numstr_sample no_params
     = Inr two_items
   \<and> total two_items = length (items two_items)
   \<and> total two_items = 2
   \<and> search_and_contact (answer_with (response_of [raw_mesa, raw_silla])) numstr_sample
       strnum_sample hola_body
     = Ok \<lparr> items_c = [one_contact], total_c = 1, nextPage_c = JStr ''cursor-2'' \<rparr>
   \<and> total_c \<lparr> items_c = [one_contact], total_c = 1, nextPage_c = JStr ''cursor-2'' \<rparr>
     = length (items_c \<lparr> items_c = [one_contact], total_c = 1,
                         nextPage_c = JStr ''cursor-2'' \<rparr>)"
proof -
  have a: "search (answer_with (response_of [raw_mesa, raw_silla])) numstr_sample no_params
     = Inr two_items"
    by (rule sample_search)
  have b: "search_and_contact (answer_with (response_of [raw_mesa, raw_silla])) numstr_sample
       strnum_sample hola_body
     = Ok \<lparr> items_c = [one_contact], total_c = 1, nextPage_c = JStr ''cursor-2'' \<rparr>"
    by (rule sample_contact)
  from a b total_is_length_of_items [of "answer_with (response_of [raw_mesa, raw_silla])"
      numstr_sample no_params two_items strnum_sample hola_body
      "\<lparr> items_c = [one_contact], total_c = 1, nextPage_c = JStr ''cursor-2'' \<rparr>"]
  show ?thesis
    by (simp add: two_items_def)
qed

text \<open>
  Claim C6. Whenever the search of the composite operation succeeds (the request has a
  query and a message, and its limit is coerced to a number without an error, as every
  number and every missing limit is), the operation answers with the items of the search that are
  not reserved, in their order; every item of the answer has the reserved flag false,
  and is annotated with the two follow-up requests: the hash request for its slug, and
  the chat request with the placeholder \<^verbatim>\<open><hash>\<close> and the message. No page is
  fetched and no hash is resolved: the operation has no page host to ask.
\<close>

theorem composite_skips_reserved:
  assumes "present_str (query_b body)" and "present_str (message_b body)"
    and "contact_params numstr strnum body = Inr p"
    and "search api_get numstr p = Inr r"
  shows \<open>\<exists>its. search_and_contact api_get numstr strnum body
               = Ok \<lparr> items_c = its, total_c = length its, nextPage_c = nextPage r \<rparr>
           \<and> map SearchItem.truncate its = filter (\<lambda>i. \<not> truthy (reserved i)) (items r)
           \<and> list_all (\<lambda>it. reserved it = JBool False
                \<and> (\<exists>s. ToString numstr (slug it) = Inr s
                      \<and> step1 (chatFlow it) = ''GET /api/items/hash?slug='' @ s)
                \<and> step2 (chatFlow it)
                    = ''POST /api/chat { itemHash: "<hash>", message: "''
                      @ the (message_b body) @ ''" }'') its\<close>
proof -
  let ?avail = "filter (\<lambda>i. \<not> truthy (reserved i)) (items r)"
  let ?ann = "annotate numstr (the (message_b body))"
  from search_Inr [OF assms(4)] obtain raw_items where
    l2: "list_all2 (\<lambda>x y. simplifySearchItem numstr x = Inr y) raw_items (items r)"
    by blast
  have produced: "\<exists>x. simplifySearchItem numstr x = Inr y" if "y \<in> set (items r)" for y
    using list_all2_rightD [OF l2 that] by blast
  have ann_ok: "\<exists>z. ?ann y = Inr z" if "y \<in> set ?avail" for y
  proof -
    from that produced obtain x where "simplifySearchItem numstr x = Inr y" by auto
    from simplifySearchItem_Inr(2) [OF this] show ?thesis
      by (rule annotate_total)
  qed
  then have "list_all (\<lambda>y. \<exists>z. ?ann y = Inr z) ?avail"
    by (simp add: list_all_iff)
  then obtain its where its: "map_throw ?ann ?avail = Inr its"
    using map_throw_total by blast
  then have a2: "list_all2 (\<lambda>y z. ?ann y = Inr z) ?avail its"
    by (simp add: map_throw_Inr)
  have trunc: "map SearchItem.truncate its = ?avail"
    using a2
  proof (induction rule: list_all2_induct)
    case Nil
    then show ?case by simp
  next
    case (Cons y ys z zs)
    then show ?case
      by (simp add: annotate_Inr(1))
  qed
  have each: \<open>reserved z = JBool False
                \<and> (\<exists>s. ToString numstr (slug z) = Inr s
                      \<and> step1 (chatFlow z) = ''GET /api/items/hash?slug='' @ s)
                \<and> step2 (chatFlow z)
                    = ''POST /api/chat { itemHash: "<hash>", message: "''
                      @ the (message_b body) @ ''" }''\<close> if z: "z \<in> set its" for z
  proof -
    from list_all2_rightD [OF a2 z] obtain y where y: "y \<in> set ?avail" and yz: "?ann y = Inr z"
      by blast
    from y produced obtain x where x: "simplifySearchItem numstr x = Inr y" by auto
    from y have "\<not> truthy (reserved y)" by simp
    with simplifySearchItem_Inr(5) [OF x] have res: "reserved y = JBool False"
      by (simp add: js_or_def split: if_splits)
    from res annotate_Inr(2-4) [OF yz] show ?thesis
      by simp
  qed
  then have \<open>list_all (\<lambda>it. reserved it = JBool False
                \<and> (\<exists>s. ToString numstr (slug it) = Inr s
                      \<and> step1 (chatFlow it) = ''GET /api/items/hash?slug='' @ s)
                \<and> step2 (chatFlow it)
                    = ''POST /api/chat { itemHash: "<hash>", message: "''
                      @ the (message_b body) @ ''" }'') its\<close>
    by (simp add: list_all_iff)
  with trunc its assms show ?thesis
    by (simp add: search_and_contact_def)
qed

text \<open>Claim C6 at a response with an available table and a reserved chair: only the
  table is in the answer.\<close>

theorem composite_skips_reserved_witness:
  \<open>present_str (query_b hola_body) \<and> present_str (message_b hola_body)
   \<and> contact_params numstr_sample strnum_sample hola_body = Inr capped_params
   \<and> search (answer_with (response_of [raw_mesa, raw_silla])) numstr_sample capped_params
        = Inr two_items
   \<and> (\<exists>its. search_and_contact (answer_with (response_of [raw_mesa, raw_silla])) numstr_sample
               strnum_sample hola_body
               = Ok \<lparr> items_c = its, total_c = length its, nextPage_c = JStr ''cursor-2'' \<rparr>
           \<and> map SearchItem.truncate its = [item_mesa]
           \<and> list_all (\<lambda>it. reserved it = JBool False
                \<and> (\<exists>s. ToString numstr_sample (slug it) = Inr s
                      \<and> step1 (chatFlow it) = ''GET /api/items/hash?slug='' @ s)
                \<and> step2 (chatFlow it)
                    = ''POST /api/chat { itemHash: "<hash>", message: "Hola!" }'') its)\<close>
proof -
  have q: "present_str (query_b hola_body)" and m: "present_str (message_b hola_body)"
    by (simp_all add: hola_body_def)
  have p: "contact_params numstr_sample strnum_sample hola_body = Inr capped_params"
    by (rule sample_params)
  have s: "search (answer_with (response_of [raw_mesa, raw_silla])) numstr_sample capped_params
        = Inr two_items"
    by (rule sample_search)
  have f: "filter (\<lambda>i. \<not> truthy (reserved i)) (items two_items) = [item_mesa]"
    by (simp add: two_items_def item_mesa_def item_silla_def)
  have n: "nextPage two_items = JStr ''cursor-2''" and msg: "the (message_b hola_body) = ''Hola!''"
    by (simp_all add: two_items_def hola_body_def)
  from composite_skips_reserved [OF q m p s] q m p s show ?thesis
    unfolding f n msg by simp
qed

text \<open>
  Claim C1, as amended. For every page that was fetched, \<open>getItemHash\<close> ends in one of
  four ways. It throws a plain Error (\<^verbatim>\<open>Could not find __NEXT_DATA__ in page\<close>) when the
  pattern finds no hydration tag; it lets the SyntaxError of \<^verbatim>\<open>JSON.parse\<close> through
  when the captured text is not valid JSON; it throws a plain Error
  (\<^verbatim>\<open>Could not extract item hash from page data\<close>, in client.js without the last word)
  when the value at \<^verbatim>\<open>props.pageProps.item.id\<close> is absent or falsy; and otherwise it
  returns that value, in particular the exact identifier when it is a non-empty string.
  It throws no TypeError.
\<close>

theorem getItemHash_outcomes:
  assumes "fetch_text (page_url u) = Inr html"
  shows "(match_next_data html = None \<longrightarrow>
            getItemHash fetch_text parse u = Inl (Error ''Could not find __NEXT_DATA__ in page'')
          \<and> getItemHash_js fetch_text parse u
              = Inl (Error ''Could not find __NEXT_DATA__ in page''))
       \<and> (\<forall>t. match_next_data html = Some t \<and> parse t = None \<longrightarrow>
            getItemHash fetch_text parse u = Inl SyntaxError
          \<and> getItemHash_js fetch_text parse u = Inl SyntaxError)
       \<and> (\<forall>t d. match_next_data html = Some t \<and> parse t = Some d
              \<and> \<not> truthy (item_id_path d) \<longrightarrow>
            getItemHash fetch_text parse u
              = Inl (Error ''Could not extract item hash from page data'')
          \<and> getItemHash_js fetch_text parse u
              = Inl (Error ''Could not extract item hash from page''))
       \<and> (\<forall>t d. match_next_data html = Some t \<and> parse t = Some d
              \<and> truthy (item_id_path d) \<longrightarrow>
            getItemHash fetch_text parse u = Inr (item_id_path d)
          \<and> getItemHash_js fetch_text parse u = Inr (item_id_path d))
       \<and> (\<forall>t d s. match_next_data html = Some t \<and> parse t = Some d
              \<and> item_id_path d = JStr s \<and> s \<noteq> [] \<longrightarrow>
            getItemHash fetch_text parse u = Inr (JStr s)
          \<and> getItemHash_js fetch_text parse u = Inr (JStr s))
       \<and> getItemHash fetch_text parse u \<noteq> Inl TypeError
       \<and> getItemHash_js fetch_text parse u \<noteq> Inl TypeError"
  using assms
  by (auto simp: getItemHash_def getItemHash_js_def Let_def split: option.splits)

text \<open>The amended claim at the four sample pages.\<close>

theorem getItemHash_outcomes_witness:
  "serve_page page_with_hash (page_url ''mesa-1'') = Inr page_with_hash
   \<and> match_next_data page_with_hash = Some doc_with_hash_text
   \<and> JSON_parse_sample doc_with_hash_text = Some doc_with_hash
   \<and> item_id_path doc_with_hash = JStr ''qzmmv570nlzv''
   \<and> getItemHash (serve_page page_with_hash) JSON_parse_sample ''mesa-1''
       = Inr (JStr ''qzmmv570nlzv'')
   \<and> serve_page page_without_item (page_url ''mesa-1'') = Inr page_without_item
   \<and> match_next_data page_without_item = Some doc_without_item_text
   \<and> JSON_parse_sample doc_without_item_text = Some doc_without_item
   \<and> \<not> truthy (item_id_path doc_without_item)
   \<and> getItemHash (serve_page page_without_item) JSON_parse_sample ''mesa-1''
       = Inl (Error ''Could not extract item hash from page data'')
   \<and> serve_page page_without_tag (page_url ''mesa-1'') = Inr page_without_tag
   \<and> match_next_data page_without_tag = None
   \<and> getItemHash (serve_page page_without_tag) JSON_parse_sample ''mesa-1''
       = Inl (Error ''Could not find __NEXT_DATA__ in page'')
   \<and> serve_page page_bad_json (page_url ''mesa-1'') = Inr page_bad_json
   \<and> match_next_data page_bad_json = Some ''{oops''
   \<and> JSON_parse_sample ''{oops'' = None
   \<and> getItemHash (serve_page page_bad_json) JSON_parse_sample ''mesa-1'' = Inl SyntaxError"
proof -
  have a: "serve_page page_with_hash (page_url ''mesa-1'') = Inr page_with_hash"
    and b: "serve_page page_without_item (page_url ''mesa-1'') = Inr page_without_item"
    and c: "serve_page page_without_tag (page_url ''mesa-1'') = Inr page_without_tag"
    and d: "serve_page page_bad_json (page_url ''mesa-1'') = Inr page_bad_json"
    by (simp_all add: serve_page_def)
  from getItemHash_outcomes [where fetch_text = "serve_page page_with_hash"
      and u = "''mesa-1''" and html = page_with_hash and parse = JSON_parse_sample]
    getItemHash_outcomes [where fetch_text = "serve_page page_without_item"
      and u = "''mesa-1''" and html = page_without_item and parse = JSON_parse_sample]
    getItemHash_outcomes [where fetch_text = "serve_page page_without_tag"
      and u = "''mesa-1''" and html = page_without_tag and parse = JSON_parse_sample]
    getItemHash_outcomes [where fetch_text = "serve_page page_bad_json"
      and u = "''mesa-1''" and html = page_bad_json and parse = JSON_parse_sample]
  show ?thesis
    by (simp add: a b c d sample_matches sample_parses sample_paths)
qed

text \<open>Claim C1 as stated fails: when the tag holds a text that is not JSON, the error
  is the SyntaxError of \<^verbatim>\<open>JSON.parse\<close>, another kind of error than the one thrown
  when the tag is missing.\<close>

theorem getItemHash_bad_json_counterexample:
  "match_next_data page_bad_json = Some ''{oops''
   \<and> JSON_parse_sample ''{oops'' = None
   \<and> getItemHash (serve_page page_bad_json) JSON_parse_sample ''mesa-1'' = Inl SyntaxError
   \<and> getItemHash_js (serve_page page_bad_json) JSON_parse_sample ''mesa-1'' = Inl SyntaxError
   \<and> getItemHash (serve_page page_without_tag) JSON_parse_sample ''mesa-1''
       = Inl (Error ''Could not find __NEXT_DATA__ in page'')
   \<and> error_name SyntaxError \<noteq> error_name (Error ''Could not find __NEXT_DATA__ in page'')"
  by (simp add: getItemHash_def getItemHash_js_def serve_page_def sample_matches
      sample_parses)

text \<open>
  Claim C4, as amended. For every JSON object whose title and description are not
  \<^verbatim>\<open>null\<close> and whose \<^verbatim>\<open>web_slug\<close> can be rendered as text, \<open>simplifyItemDetails\<close>
  does not fail, and in its result the price is 0 when neither the cash amount nor the
  flat amount is there, the counters are \<^verbatim>\<open>null\<close> when the raw counters are missing
  (or falsy), and the image count is 0 when the raw images are missing (or falsy). The
  implementation of client.js does not fail either and has the same counters and image
  count, but leaves the price as it found it. On every other JSON object both throw a
  TypeError.
\<close>

theorem simplifyItemDetails_total:
  "(opt_prop (JObj kvs) ''title'' \<noteq> JNull \<and> opt_prop (JObj kvs) ''description'' \<noteq> JNull
      \<and> renders numstr (opt_prop (JObj kvs) ''web_slug'') \<longrightarrow>
      (\<exists>d. simplifyItemDetails numstr (JObj kvs) = Inr d
         \<and> (nullish (cash_or_flat_amount (opt_prop (JObj kvs) ''price'')) \<longrightarrow>
              price_d d = JNum (Num 0))
         \<and> (\<not> truthy (opt_prop (JObj kvs) ''counters'') \<longrightarrow> counters d = JNull)
         \<and> (\<not> truthy (opt_prop (JObj kvs) ''images'') \<longrightarrow> images d = JNum (Num 0)))
      \<and> (\<exists>d. simplifyItemDetails_js numstr (JObj kvs) = Inr d
         \<and> price_d d = cash_or_flat_amount (opt_prop (JObj kvs) ''price'')
         \<and> (\<not> truthy (opt_prop (JObj kvs) ''counters'') \<longrightarrow> counters d = JNull)
         \<and> (\<not> truthy (opt_prop (JObj kvs) ''images'') \<longrightarrow> images d = JNum (Num 0))))
   \<and> (opt_prop (JObj kvs) ''title'' = JNull \<or> opt_prop (JObj kvs) ''description'' = JNull
      \<or> \<not> renders numstr (opt_prop (JObj kvs) ''web_slug'') \<longrightarrow>
      simplifyItemDetails numstr (JObj kvs) = Inl TypeError
      \<and> simplifyItemDetails_js numstr (JObj kvs) = Inl TypeError)"
proof (intro conjI impI)
  assume ok: "opt_prop (JObj kvs) ''title'' \<noteq> JNull \<and> opt_prop (JObj kvs) ''description'' \<noteq> JNull
      \<and> renders numstr (opt_prop (JObj kvs) ''web_slug'')"
  then obtain s where s: "ToString numstr (opt_prop (JObj kvs) ''web_slug'') = Inr s"
    by (auto simp: renders_iff)
  from ok show "\<exists>d. simplifyItemDetails numstr (JObj kvs) = Inr d
         \<and> (nullish (cash_or_flat_amount (opt_prop (JObj kvs) ''price'')) \<longrightarrow>
              price_d d = JNum (Num 0))
         \<and> (\<not> truthy (opt_prop (JObj kvs) ''counters'') \<longrightarrow> counters d = JNull)
         \<and> (\<not> truthy (opt_prop (JObj kvs) ''images'') \<longrightarrow> images d = JNum (Num 0))"
    by (simp add: simplifyItemDetails_def get_prop_not_nullish unwrap_original_value
        details_literal_obj [OF s] js_coalesce_def js_or_def del: get_prop.simps)
      (simp add: opt_prop_def)
  from ok show "\<exists>d. simplifyItemDetails_js numstr (JObj kvs) = Inr d
         \<and> price_d d = cash_or_flat_amount (opt_prop (JObj kvs) ''price'')
         \<and> (\<not> truthy (opt_prop (JObj kvs) ''counters'') \<longrightarrow> counters d = JNull)
         \<and> (\<not> truthy (opt_prop (JObj kvs) ''images'') \<longrightarrow> images d = JNum (Num 0))"
    by (simp add: simplifyItemDetails_js_def get_prop_not_nullish unwrap_original_value
        details_literal_obj [OF s] js_coalesce_def js_or_def del: get_prop.simps)
      (simp add: opt_prop_def)
next
  assume bad: "opt_prop (JObj kvs) ''title'' = JNull \<or> opt_prop (JObj kvs) ''description'' = JNull
      \<or> \<not> renders numstr (opt_prop (JObj kvs) ''web_slug'')"
  have lit: "\<not> renders numstr (opt_prop (JObj kvs) ''web_slug'') \<Longrightarrow>
      details_literal numstr (JObj kvs) a b c = Inl TypeError" for a b c
    by (simp add: details_literal_unrenderable not_renders)
  have unw: "unwrap_original t = Inl TypeError \<or> (\<exists>v. unwrap_original t = Inr v)" for t
    by (cases "t = JNull") (simp_all add: unwrap_original_null unwrap_original_value)
  show "simplifyItemDetails numstr (JObj kvs) = Inl TypeError"
    using bad unw [of "opt_prop (JObj kvs) ''title''"]
      unw [of "opt_prop (JObj kvs) ''description''"]
    by (auto simp: simplifyItemDetails_def get_prop_not_nullish unwrap_original_null lit
        simp del: get_prop.simps)
  show "simplifyItemDetails_js numstr (JObj kvs) = Inl TypeError"
    using bad unw [of "opt_prop (JObj kvs) ''title''"]
      unw [of "opt_prop (JObj kvs) ''description''"]
    by (auto simp: simplifyItemDetails_js_def get_prop_not_nullish unwrap_original_null lit
        simp del: get_prop.simps)
qed

text \<open>The amended claim at the empty object, which has none of the fields, and at an
  object whose title is \<^verbatim>\<open>null\<close>.\<close>

theorem simplifyItemDetails_total_witness:
  "opt_prop (JObj []) ''title'' \<noteq> JNull \<and> opt_prop (JObj []) ''description'' \<noteq> JNull
   \<and> renders numstr_sample (opt_prop (JObj []) ''web_slug'')
   \<and> nullish (cash_or_flat_amount (opt_prop (JObj []) ''price''))
   \<and> \<not> truthy (opt_prop (JObj []) ''counters'')
   \<and> \<not> truthy (opt_prop (JObj []) ''images'')
   \<and> (\<exists>d. simplifyItemDetails numstr_sample (JObj []) = Inr d
         \<and> price_d d = JNum (Num 0) \<and> counters d = JNull \<and> images d = JNum (Num 0))
   \<and> (\<exists>d. simplifyItemDetails_js numstr_sample (JObj []) = Inr d
         \<and> price_d d = JUndefined \<and> counters d = JNull \<and> images d = JNum (Num 0))
   \<and> opt_prop (JObj [(''id'', JStr ''77''), (''title'', JNull)]) ''title'' = JNull
   \<and> simplifyItemDetails numstr_sample (JObj [(''id'', JStr ''77''), (''title'', JNull)])
       = Inl TypeError"
proof -
  have h: "opt_prop (JObj []) ''title'' \<noteq> JNull" "opt_prop (JObj []) ''description'' \<noteq> JNull"
    "renders numstr_sample (opt_prop (JObj []) ''web_slug'')"
    "nullish (cash_or_flat_amount (opt_prop (JObj []) ''price''))"
    "\<not> truthy (opt_prop (JObj []) ''counters'')"
    "\<not> truthy (opt_prop (JObj []) ''images'')"
    "cash_or_flat_amount (opt_prop (JObj []) ''price'') = JUndefined"
    "opt_prop (JObj [(''id'', JStr ''77''), (''title'', JNull)]) ''title'' = JNull"
    by (simp_all add: opt_prop_def renders_def cash_or_flat_amount_def js_coalesce_def)
  from simplifyItemDetails_total [of "[]" numstr_sample]
    simplifyItemDetails_total [of "[(''id'', JStr ''77''), (''title'', JNull)]" numstr_sample]
  show ?thesis
    using h by simp
qed

text \<open>Claim C4 as stated fails: a JSON object whose title is \<^verbatim>\<open>null\<close> makes
  \<open>simplifyItemDetails\<close> throw (\<^verbatim>\<open>typeof null\<close> is \<^verbatim>\<open>'object'\<close>, and \<^verbatim>\<open>null.original\<close>
  is a TypeError); and in client.js the price of an object without price is not 0.\<close>

theorem simplifyItemDetails_null_title_counterexample:
  "simplifyItemDetails numstr_sample (JObj [(''id'', JStr ''77''), (''title'', JNull)])
     = Inl TypeError
   \<and> simplifyItemDetails_js numstr_sample (JObj [(''id'', JStr ''77''), (''title'', JNull)])
     = Inl TypeError
   \<and> map_sum id price_d (simplifyItemDetails_js numstr_sample (JObj [])) = Inr JUndefined"
proof -
  have s: "ToString numstr_sample (opt_prop (JObj []) ''web_slug'') = Inr ''undefined''"
    by (simp add: opt_prop_def)
  show ?thesis
    by (simp add: simplifyItemDetails_def simplifyItemDetails_js_def unwrap_original_def
        details_literal_obj [OF s] cash_or_flat_amount_def js_coalesce_def opt_prop_def)
qed

text \<open>
  Claim C5, as amended. When the upstream response carries N raw items, none of them
  \<^verbatim>\<open>null\<close> and each with a \<^verbatim>\<open>web_slug\<close> that can be rendered as text, the search
  returns exactly N items, in the same order, and the currency of each is the raw
  currency when that is truthy, and \<^verbatim>\<open>EUR\<close> when it is absent or otherwise falsy
  (\<^verbatim>\<open>null\<close>, the empty string, zero, \<^verbatim>\<open>false\<close>).
\<close>

theorem search_yields_every_item:
  assumes "api_get ''/search'' (search_query params) = Inr data"
    and "payload_items data = JArr raw_items"
    and "list_all (\<lambda>it. \<not> nullish it \<and> renders numstr (opt_prop it ''web_slug'')) raw_items"
  shows "\<exists>r. search api_get numstr params = Inr r
           \<and> length (items r) = length raw_items
           \<and> map currency (items r)
               = map (\<lambda>it. if truthy (opt_prop (opt_prop it ''price'') ''currency'')
                            then opt_prop (opt_prop it ''price'') ''currency''
                            else JStr ''EUR'') raw_items"
proof -
  have "list_all (\<lambda>x. \<exists>y. simplifySearchItem numstr x = Inr y) raw_items"
    using assms(3)
    by (auto simp: list_all_iff renders_iff simplifySearchItem_value)
  then obtain its where its: "map_throw (simplifySearchItem numstr) raw_items = Inr its"
    using map_throw_total by blast
  then have l2: "list_all2 (\<lambda>x y. simplifySearchItem numstr x = Inr y) raw_items its"
    by (simp add: map_throw_Inr)
  have cur: "map currency its
      = map (\<lambda>it. if truthy (opt_prop (opt_prop it ''price'') ''currency'')
                            then opt_prop (opt_prop it ''price'') ''currency''
                            else JStr ''EUR'') raw_items"
    using l2
  proof (induction rule: list_all2_induct)
    case Nil
    then show ?case by simp
  next
    case (Cons x xs y ys)
    then show ?case
      by (simp add: simplifySearchItem_Inr(4) js_or_def)
  qed
  from l2 have "length its = length raw_items"
    by (auto dest: list_all2_lengthD)
  with cur its assms(1,2) show ?thesis
    by (simp add: search_def)
qed

text \<open>The amended claim at a response with two raw items, the first priced in USD, the
  second without a currency.\<close>

theorem search_yields_every_item_witness:
  "answer_with (response_of [raw_mesa, raw_silla]) ''/search'' (search_query no_params)
     = Inr (response_of [raw_mesa, raw_silla])
   \<and> payload_items (response_of [raw_mesa, raw_silla]) = JArr [raw_mesa, raw_silla]
   \<and> list_all (\<lambda>it. \<not> nullish it \<and> renders numstr_sample (opt_prop it ''web_slug''))
        [raw_mesa, raw_silla]
   \<and> (\<exists>r. search (answer_with (response_of [raw_mesa, raw_silla])) numstr_sample no_params
             = Inr r
         \<and> length (items r) = 2
         \<and> map currency (items r) = [JStr ''USD'', JStr ''EUR''])"
proof -
  have a: "answer_with (response_of [raw_mesa, raw_silla]) ''/search'' (search_query no_params)
     = Inr (response_of [raw_mesa, raw_silla])"
    by (simp add: answer_with_def)
  have b: "payload_items (response_of [raw_mesa, raw_silla]) = JArr [raw_mesa, raw_silla]"
    by (simp add: payload_items_def response_of_def opt_prop_def js_or_def)
  have c: "list_all (\<lambda>it. \<not> nullish it \<and> renders numstr_sample (opt_prop it ''web_slug''))
        [raw_mesa, raw_silla]"
    by (simp add: raw_mesa_def raw_silla_def renders_def opt_prop_def)
  have d: "map (\<lambda>it. if truthy (opt_prop (opt_prop it ''price'') ''currency'')
                            then opt_prop (opt_prop it ''price'') ''currency''
                            else JStr ''EUR'') [raw_mesa, raw_silla]
      = [JStr ''USD'', JStr ''EUR'']"
    by (simp add: raw_mesa_def raw_silla_def opt_prop_def)
  from search_yields_every_item [where api_get = "answer_with (response_of [raw_mesa, raw_silla])"
      and params = no_params and data = "response_of [raw_mesa, raw_silla]"
      and raw_items = "[raw_mesa, raw_silla]" and numstr = numstr_sample, OF a b c]
  show ?thesis
    unfolding d using a b c by (auto simp: numeral_2_eq_2)
qed

text \<open>Claim C5 as stated fails: a raw item whose currency is present as the empty
  string gets \<^verbatim>\<open>EUR\<close>, not its raw currency; and a response whose item list holds a
  \<^verbatim>\<open>null\<close> yields no items but a TypeError.\<close>

theorem empty_currency_counterexample:
  "opt_prop (opt_prop raw_blank_currency ''price'') ''currency'' = JStr []
   \<and> map_sum id currency (simplifySearchItem numstr_sample raw_blank_currency)
       = Inr (JStr ''EUR'')
   \<and> payload_items (response_of [JNull]) = JArr [JNull]
   \<and> search (answer_with (response_of [JNull])) numstr_sample no_params = Inl TypeError"
  by (simp add: raw_blank_currency_def simplifySearchItem_def opt_prop_def js_or_def
      search_def answer_with_def response_of_def payload_items_def)

end
